theory Spec2Isabelle
  imports Main "HOL-Library.AList"
begin

section \<open>Paths: the part of Node's \<open>path.posix\<close> that \<open>server.js\<close> calls\<close>

text \<open>
  \<open>server.js\<close> composes every file name with \<open>path.join\<close> and, for uploaded files,
  \<open>path.basename\<close>. Both are pure string functions. \<open>path.join\<close> joins its non-empty
  arguments with \<open>/\<close> and normalises the result: empty and \<open>.\<close> segments vanish, a
  \<open>..\<close> segment removes the segment before it, and a \<open>..\<close> with nothing before it is kept
  when the path is relative.
\<close>

fun split_on :: "char \<Rightarrow> string \<Rightarrow> string list" where
  "split_on c [] = [[]]"
| "split_on c (x # xs) =
     (if x = c then [] # split_on c xs
      else (case split_on c xs of [] \<Rightarrow> [[x]] | s # ss \<Rightarrow> (x # s) # ss))"

fun join_with :: "string \<Rightarrow> string list \<Rightarrow> string" where
  "join_with sep [] = []"
| "join_with sep [s] = s"
| "join_with sep (s # t # ss) = s @ sep @ join_with sep (t # ss)"

definition normalize_step :: "bool \<Rightarrow> string list \<Rightarrow> string \<Rightarrow> string list" where
  "normalize_step allowAboveRoot res seg =
     (if seg = [] \<or> seg = ''.'' then res
      else if seg = ''..'' then
        (if res \<noteq> [] \<and> last res \<noteq> ''..'' then butlast res
         else if allowAboveRoot then res @ [''..''] else res)
      else res @ [seg])"

definition normalizeString :: "string \<Rightarrow> bool \<Rightarrow> string" where
  "normalizeString p allowAboveRoot =
     join_with ''/'' (foldl (normalize_step allowAboveRoot) [] (split_on CHR ''/'' p))"

definition path_normalize :: "string \<Rightarrow> string" where
  "path_normalize p =
     (if p = [] then ''.''
      else
        let isAbsolute = (hd p = CHR ''/'');
            trailingSeparator = (last p = CHR ''/'');
            q = normalizeString p (\<not> isAbsolute)
        in if q = [] then
             (if isAbsolute then ''/'' else if trailingSeparator then ''./'' else ''.'')
           else
             (let q' = (if trailingSeparator then q @ ''/'' else q)
              in if isAbsolute then CHR ''/'' # q' else q'))"

definition path_join :: "string list \<Rightarrow> string" where
  "path_join args =
     (let joined = filter (\<lambda>a. a \<noteq> []) args
      in if joined = [] then ''.'' else path_normalize (join_with ''/'' joined))"

text \<open>
  \<open>path.basename\<close>: trailing separators are ignored and the text after the last remaining
  separator is returned; a name made of separators only gives the empty string.
\<close>

definition path_basename :: "string \<Rightarrow> string" where
  "path_basename p =
     rev (takeWhile (\<lambda>c. c \<noteq> CHR ''/'') (dropWhile (\<lambda>c. c = CHR ''/'') (rev p)))"

definition endsWith :: "string \<Rightarrow> string \<Rightarrow> bool" where
  "endsWith s suffix =
     (length suffix \<le> length s \<and> drop (length s - length suffix) s = suffix)"

text \<open>
  A normalised path lies inside directory \<open>d\<close> when it starts with \<open>d/\<close>: after
  \<open>path.join\<close> no inner \<open>..\<close> is left that could lead out again.
\<close>

definition inside_dir :: "string \<Rightarrow> string \<Rightarrow> bool" where
  "inside_dir d p = (length d + 1 < length p \<and> take (length d + 1) p = d @ ''/'')"

section \<open>JSON values\<close>

text \<open>
  Request bodies and stored documents are JSON values. An object keeps its properties in
  insertion order, one entry per key (JavaScript moves keys that are array indices to the
  front; nothing here depends on the order). Numbers are modelled as integers, which
  print in plain decimal; no operation of the store computes with them, and fractions and
  exponents are left out. A property that is absent reads as JavaScript's \<open>undefined\<close>,
  modelled as \<open>None\<close>.
\<close>

datatype json =
    JNull
  | JBool bool
  | JNum int
  | JStr string
  | JArr "json list"
  | JObj "(string \<times> json) list"

datatype exn = TypeError | SyntaxError | ENOENT | EISDIR | ENAMETOOLONG | ERR_INVALID_ARG_VALUE

text \<open>Truthiness, as the operators \<open>||\<close> and \<open>!\<close> see it.\<close>

fun truthy :: "json \<Rightarrow> bool" where
  "truthy JNull = False"
| "truthy (JBool b) = b"
| "truthy (JNum n) = (n \<noteq> 0)"
| "truthy (JStr s) = (s \<noteq> [])"
| "truthy (JArr xs) = True"
| "truthy (JObj kv) = True"

text \<open>\<open>a || b\<close> where \<open>a\<close> is a property read.\<close>

fun or_else :: "json option \<Rightarrow> json \<Rightarrow> json" where
  "or_else None d = d"
| "or_else (Some v) d = (if truthy v then v else d)"

text \<open>Decimal text of a number, as a template literal prints it.\<close>

function show_nat :: "nat \<Rightarrow> string" where
  "show_nat n =
     (if n < 10 then [''0123456789'' ! n]
      else show_nat (n div 10) @ [''0123456789'' ! (n mod 10)])"
  by pat_completeness auto
termination
  by (relation "measure (\<lambda>n. n)") auto

definition show_int :: "int \<Rightarrow> string" where
  "show_int i = (if i < 0 then CHR ''-'' # show_nat (nat (- i)) else show_nat (nat i))"

text \<open>
  The text a template literal \<open>`${v}`\<close> produces for a JSON value: a string is itself, an
  array is its elements joined by commas (\<open>null\<close> elements print as nothing), an object
  is \<open>[object Object]\<close>.
\<close>

fun to_string :: "json \<Rightarrow> string"
  and to_string_elem :: "json \<Rightarrow> string" where
  "to_string JNull = ''null''"
| "to_string (JBool b) = (if b then ''true'' else ''false'')"
| "to_string (JNum n) = show_int n"
| "to_string (JStr s) = s"
| "to_string (JArr xs) = join_with '','' (map to_string_elem xs)"
| "to_string (JObj kv) = ''[object Object]''"
| "to_string_elem v = (if v = JNull then [] else to_string v)"

text \<open>
  Printing an object calls its \<open>toString\<close>. An object that has a key \<open>toString\<close> of its
  own hides the inherited method behind a JSON value, which is not callable, and the
  conversion throws a \<open>TypeError\<close>; so does printing an array that holds such an object.
  \<open>to_string\<close> is the text of a value that prints.
\<close>

fun printable :: "json \<Rightarrow> bool" where
  "printable (JArr xs) = list_all printable xs"
| "printable (JObj kv) = (map_of kv ''toString'' = None)"
| "printable v = True"

text \<open>The template literal \<open>`${v}`\<close>, and \<open>`${o.k}`\<close> for a property that may be absent.\<close>

definition template :: "json \<Rightarrow> exn + string" where
  "template v = (if printable v then Inr (to_string v) else Inl TypeError)"

fun template_prop :: "json option \<Rightarrow> exn + string" where
  "template_prop None = Inr ''undefined''"
| "template_prop (Some v) = template v"

text \<open>
  Reading a property \<open>v.k\<close>: a \<open>TypeError\<close> on \<open>null\<close>, the stored value on an object that
  has the key, \<open>undefined\<close> otherwise (none of the property names the server reads exists
  on a string, number, boolean or array).
\<close>

fun get_prop :: "json \<Rightarrow> string \<Rightarrow> exn + json option" where
  "get_prop JNull k = Inl TypeError"
| "get_prop (JObj kv) k = Inr (map_of kv k)"
| "get_prop v k = Inr None"

text \<open>
  Writing a property. Assigning \<open>undefined\<close> leaves a key that \<open>JSON.stringify\<close> omits;
  every object the server builds is only ever stringified (into a file or a response), so
  the model drops the key instead.
\<close>

fun put_prop :: "string \<Rightarrow> json option \<Rightarrow> (string \<times> json) list \<Rightarrow> (string \<times> json) list" where
  "put_prop k (Some v) kv = AList.update k v kv"
| "put_prop k None kv = AList.delete k kv"

text \<open>An object literal \<open>{k1: e1, k2: e2, ...}\<close> whose values are property reads.\<close>

definition object_literal :: "(string \<times> json option) list \<Rightarrow> (string \<times> json) list" where
  "object_literal props = fold (\<lambda>(k, v). put_prop k v) props []"

text \<open>The own enumerable properties that a spread \<open>...v\<close> copies.\<close>

fun own_props :: "json \<Rightarrow> (string \<times> json) list" where
  "own_props (JObj kv) = kv"
| "own_props (JArr xs) = zip (map show_nat [0 ..< length xs]) xs"
| "own_props (JStr s) = zip (map show_nat [0 ..< length s]) (map (\<lambda>c. JStr [c]) s)"
| "own_props v = []"

text \<open>\<open>{...target, ...source}\<close>: the source's properties are assigned one after the other.\<close>

definition object_assign ::
    "(string \<times> json) list \<Rightarrow> (string \<times> json) list \<Rightarrow> (string \<times> json) list" where
  "object_assign target source = fold (\<lambda>(k, v). AList.update k v) source target"

section \<open>The file system\<close>

text \<open>
  The store is a directory tree on disk. The model keeps the regular files (path and
  content, in directory order) and the directories, each under its normalised path
  relative to the working directory of the process, which is what \<open>path.join\<close> hands to
  \<open>fs\<close>.

  Only what the routes can observe is kept: permissions and the aliases of a file
  through the name of the working directory are left out, and a directory is listed in
  the order the model stores its entries.

  A file content is a text. \<open>JsonText v\<close> is the text \<open>JSON.stringify(v, null, 2)\<close>
  writes, or any other JSON text that \<open>JSON.parse\<close> reads as \<open>v\<close>; \<open>OtherText s\<close> is a
  text that \<open>JSON.parse\<close> rejects (malformed JSON, or the bytes of an uploaded file).
\<close>

datatype content = JsonText json | OtherText string

record filesystem =
  files :: "(string \<times> content) list"
  dirs :: "string list"

definition JSON_stringify :: "json \<Rightarrow> content" where
  "JSON_stringify v = JsonText v"

fun JSON_parse :: "content \<Rightarrow> exn + json" where
  "JSON_parse (JsonText v) = Inr v"
| "JSON_parse (OtherText s) = Inl SyntaxError"

text \<open>The directory that holds a path: the text before its last separator.\<close>

definition parent_dir :: "string \<Rightarrow> string" where
  "parent_dir p =
     (if CHR ''/'' \<notin> set p then ''.''
      else rev (tl (dropWhile (\<lambda>c. c \<noteq> CHR ''/'') (rev p))))"

definition entry_name :: "string \<Rightarrow> string" where
  "entry_name p = rev (takeWhile (\<lambda>c. c \<noteq> CHR ''/'') (rev p))"

definition existsSync :: "filesystem \<Rightarrow> string \<Rightarrow> bool" where
  "existsSync fs p = (p \<in> set (dirs fs) \<or> map_of (files fs) p \<noteq> None)"

definition readFileSync :: "filesystem \<Rightarrow> string \<Rightarrow> exn + content" where
  "readFileSync fs p =
     (if p \<in> set (dirs fs) then Inl EISDIR
      else (case map_of (files fs) p of None \<Rightarrow> Inl ENOENT | Some c \<Rightarrow> Inr c))"

text \<open>
  The names a new file can have: no NUL character (Node refuses the argument), at most
  \<open>NAME_MAX\<close> bytes in each segment and fewer than \<open>PATH_MAX\<close> bytes in all (the limits
  of Linux, where the server is deployed).
\<close>

definition NAME_MAX :: nat where
  "NAME_MAX = 255"

definition PATH_MAX :: nat where
  "PATH_MAX = 4096"

definition valid_path :: "string \<Rightarrow> bool" where
  "valid_path p =
     (CHR 0x00 \<notin> set p \<and> length p < PATH_MAX
      \<and> list_all (\<lambda>seg. length seg \<le> NAME_MAX) (split_on CHR ''/'' p))"

text \<open>
  \<open>writeFileSync\<close> replaces an existing file, or creates a new one when its name is
  valid and its directory exists; it creates no directory.
\<close>

definition writeFileSync :: "filesystem \<Rightarrow> string \<Rightarrow> content \<Rightarrow> exn + filesystem" where
  "writeFileSync fs p c =
     (if p \<in> set (dirs fs) then Inl EISDIR
      else if map_of (files fs) p \<noteq> None
        then Inr (fs\<lparr>files := AList.update p c (files fs)\<rparr>)
      else if CHR 0x00 \<in> set p then Inl ERR_INVALID_ARG_VALUE
      else if \<not> valid_path p then Inl ENAMETOOLONG
      else if parent_dir p \<in> set (dirs fs)
        then Inr (fs\<lparr>files := AList.update p c (files fs)\<rparr>)
      else Inl ENOENT)"

definition unlinkSync :: "filesystem \<Rightarrow> string \<Rightarrow> exn + filesystem" where
  "unlinkSync fs p =
     (if p \<in> set (dirs fs) then Inl EISDIR
      else if map_of (files fs) p = None then Inl ENOENT
      else Inr (fs\<lparr>files := AList.delete p (files fs)\<rparr>))"

definition readdirSync :: "filesystem \<Rightarrow> string \<Rightarrow> exn + string list" where
  "readdirSync fs d =
     (if d \<notin> set (dirs fs) then Inl ENOENT
      else Inr (map entry_name
                 (filter (\<lambda>p. parent_dir p = d) (map fst (files fs) @ dirs fs))))"

section \<open>Configuration\<close>

text \<open>
  The defaults of \<open>server.js\<close>: \<open>DATA_DIR\<close> is \<open>./data\<close> and \<open>PORT\<close> is 3000 when the
  environment sets neither.
\<close>

definition DATA_DIR :: string where
  "DATA_DIR = ''./data''"

definition QUESTIONS_DIR :: string where
  "QUESTIONS_DIR = path_join [DATA_DIR, ''questions'']"

definition ALLOWED_FOLDERS :: "string list" where
  "ALLOWED_FOLDERS = [''profileimages'', ''resumes'']"

definition PORT :: string where
  "PORT = ''3000''"

section \<open>Responses\<close>

text \<open>
  A response is a status code and a payload: a JSON body (\<open>res.json\<close>), the content of a
  file (\<open>res.sendFile\<close>), or the page of Express's built-in final handler, which answers
  when a route passes the request on or throws outside a \<open>try\<close>.
\<close>

datatype payload = JsonBody json | FileBody content | DefaultPage

type_synonym response = "nat \<times> payload"

definition error_response :: "nat \<Rightarrow> string \<Rightarrow> response" where
  "error_response code msg = (code, JsonBody (JObj [(''error'', JStr msg)]))"

text \<open>\<open>Array.prototype.map\<close> with a callback that may throw: the first exception ends it.\<close>

fun map_exn :: "('a \<Rightarrow> exn + 'b) \<Rightarrow> 'a list \<Rightarrow> exn + 'b list" where
  "map_exn f [] = Inr []"
| "map_exn f (x # xs) =
     (case f x of
        Inl e \<Rightarrow> Inl e
      | Inr y \<Rightarrow> (case map_exn f xs of Inl e \<Rightarrow> Inl e | Inr ys \<Rightarrow> Inr (y # ys)))"

text \<open>\<open>JSON.parse(fs.readFileSync(p, 'utf8'))\<close>\<close>

definition read_json :: "filesystem \<Rightarrow> string \<Rightarrow> exn + json" where
  "read_json fs p = (case readFileSync fs p of Inl e \<Rightarrow> Inl e | Inr c \<Rightarrow> JSON_parse c)"

text \<open>The file of a record: \<open>path.join(QUESTIONS_DIR, `${id}.json`)\<close>.\<close>

definition record_path :: "string \<Rightarrow> string" where
  "record_path qid = path_join [QUESTIONS_DIR, qid @ ''.json'']"

text \<open>\<open>fs.readdirSync(QUESTIONS_DIR).filter(f => f.endsWith('.json'))\<close>\<close>

definition question_files :: "filesystem \<Rightarrow> exn + string list" where
  "question_files fs =
     (case readdirSync fs QUESTIONS_DIR of
        Inl e \<Rightarrow> Inl e
      | Inr names \<Rightarrow> Inr (filter (\<lambda>f. endsWith f ''.json'') names))"

section \<open>Question routes\<close>

subsection \<open>GET /questions\<close>

definition summary_keys :: "string list" where
  "summary_keys =
     [''_id'', ''title'', ''slug'', ''difficulty'', ''tags'', ''companies'',
      ''createdAt'', ''updatedAt'']"

text \<open>The callback of \<open>files.map\<close>: parse one file and keep its metadata.\<close>

definition summary_of_file :: "filesystem \<Rightarrow> string \<Rightarrow> exn + json" where
  "summary_of_file fs file =
     (case read_json fs (path_join [QUESTIONS_DIR, file]) of
        Inl e \<Rightarrow> Inl e
      | Inr data \<Rightarrow>
          (case map_exn (\<lambda>k. case get_prop data k of Inl e \<Rightarrow> Inl e | Inr v \<Rightarrow> Inr (k, v))
                  summary_keys of
             Inl e \<Rightarrow> Inl e
           | Inr props \<Rightarrow> Inr (JObj (object_literal props))))"

definition list_questions :: "filesystem \<Rightarrow> response" where
  "list_questions fs =
     (case question_files fs of
        Inl e \<Rightarrow> error_response 500 ''Failed to list questions''
      | Inr fnames \<Rightarrow>
          (case map_exn (summary_of_file fs) fnames of
             Inl e \<Rightarrow> error_response 500 ''Failed to list questions''
           | Inr questions \<Rightarrow>
               (200, JsonBody (JObj [(''success'', JBool True),
                                     (''count'', JNum (int (length questions))),
                                     (''data'', JArr questions)]))))"

subsection \<open>GET /questions/:id\<close>

definition get_question :: "filesystem \<Rightarrow> string \<Rightarrow> response" where
  "get_question fs qid =
     (let filePath = record_path qid
      in if \<not> existsSync fs filePath then error_response 404 ''Question not found''
         else (case read_json fs filePath of
                 Inl e \<Rightarrow> error_response 500 ''Failed to get question''
               | Inr question \<Rightarrow>
                   (200, JsonBody (JObj [(''success'', JBool True), (''data'', question)]))))"

subsection \<open>GET /questions/slug/:slug\<close>

fun slug_loop :: "filesystem \<Rightarrow> string \<Rightarrow> string list \<Rightarrow> response" where
  "slug_loop fs slug [] = error_response 404 ''Question not found''"
| "slug_loop fs slug (file # rest) =
     (case read_json fs (path_join [QUESTIONS_DIR, file]) of
        Inl e \<Rightarrow> error_response 500 ''Failed to get question''
      | Inr data \<Rightarrow>
          (case get_prop data ''slug'' of
             Inl e \<Rightarrow> error_response 500 ''Failed to get question''
           | Inr v \<Rightarrow>
               if v = Some (JStr slug)
               then (200, JsonBody (JObj [(''success'', JBool True), (''data'', data)]))
               else slug_loop fs slug rest))"

definition get_question_by_slug :: "filesystem \<Rightarrow> string \<Rightarrow> response" where
  "get_question_by_slug fs slug =
     (case question_files fs of
        Inl e \<Rightarrow> error_response 500 ''Failed to get question''
      | Inr fnames \<Rightarrow> slug_loop fs slug fnames)"

subsection \<open>POST /questions\<close>

text \<open>
  \<open>randomId\<close> is the value of \<open>randomBytes(12).toString('hex')\<close>; \<open>now1\<close> and \<open>now2\<close> are
  the two readings of the clock, the first taken only when the body has no truthy
  \<open>createdAt\<close>. The request body is a JSON object. The identifier is printed into the
  file name before anything is written; the title is printed into the log line after the
  file is written, inside the same \<open>try\<close>.
\<close>

text \<open>\<open>questionData._id || randomBytes(12).toString('hex')\<close>\<close>

definition question_id :: "string \<Rightarrow> (string \<times> json) list \<Rightarrow> json" where
  "question_id randomId body = or_else (map_of body ''_id'') (JStr randomId)"

text \<open>The three assignments to \<open>questionData\<close> before it is written.\<close>

definition stamp_question ::
    "string \<Rightarrow> string \<Rightarrow> string \<Rightarrow> (string \<times> json) list \<Rightarrow> (string \<times> json) list" where
  "stamp_question randomId now1 now2 body =
     (let q1 = AList.update ''_id'' (question_id randomId body) body;
          q2 = AList.update ''createdAt'' (or_else (map_of q1 ''createdAt'') (JStr now1)) q1
      in AList.update ''updatedAt'' (JStr now2) q2)"

definition created_response :: "json \<Rightarrow> response" where
  "created_response qid =
     (201, JsonBody (JObj
        [(''success'', JBool True),
         (''message'', JStr ''Question created''),
         (''data'', JObj
            [(''_id'', qid),
             (''questionUrl'',
              JStr (''http://localhost:'' @ PORT @ ''/questions/'' @ to_string qid))])]))"

definition create_question ::
    "filesystem \<Rightarrow> string \<Rightarrow> string \<Rightarrow> string \<Rightarrow> (string \<times> json) list
      \<Rightarrow> response \<times> filesystem" where
  "create_question fs randomId now1 now2 body =
     (let qid = question_id randomId body;
          questionData = stamp_question randomId now1 now2 body
      in (case template qid of
            Inl e \<Rightarrow> (error_response 500 ''Failed to create question'', fs)
          | Inr idText \<Rightarrow>
              (let filePath = record_path idText
               in if existsSync fs filePath
                  then (error_response 409 ''Question with this ID already exists'', fs)
                  else (case writeFileSync fs filePath (JSON_stringify (JObj questionData)) of
                          Inl e \<Rightarrow> (error_response 500 ''Failed to create question'', fs)
                        | Inr fs' \<Rightarrow>
                            (case template_prop (map_of questionData ''title'') of
                               Inl e \<Rightarrow> (error_response 500 ''Failed to create question'', fs')
                             | Inr title \<Rightarrow> (created_response qid, fs'))))))"

subsection \<open>PUT /questions/:id\<close>

text \<open>The title is printed into the log line after the file is written.\<close>

definition update_question ::
    "filesystem \<Rightarrow> string \<Rightarrow> string \<Rightarrow> (string \<times> json) list \<Rightarrow> response \<times> filesystem" where
  "update_question fs now qid body =
     (let filePath = record_path qid
      in if \<not> existsSync fs filePath then (error_response 404 ''Question not found'', fs)
         else (case read_json fs filePath of
                 Inl e \<Rightarrow> (error_response 500 ''Failed to update question'', fs)
               | Inr existingData \<Rightarrow>
                   (case get_prop existingData ''createdAt'' of
                      Inl e \<Rightarrow> (error_response 500 ''Failed to update question'', fs)
                    | Inr createdAt \<Rightarrow>
                        (let updatedData =
                               put_prop ''updatedAt'' (Some (JStr now))
                                 (put_prop ''createdAt'' createdAt
                                   (put_prop ''_id'' (Some (JStr qid))
                                     (object_assign (own_props existingData) body)))
                         in (case writeFileSync fs filePath (JSON_stringify (JObj updatedData)) of
                               Inl e \<Rightarrow> (error_response 500 ''Failed to update question'', fs)
                             | Inr fs' \<Rightarrow>
                                 (case template_prop (map_of updatedData ''title'') of
                                    Inl e \<Rightarrow>
                                      (error_response 500 ''Failed to update question'', fs')
                                  | Inr title \<Rightarrow>
                                      ((200, JsonBody (JObj
                                         [(''success'', JBool True),
                                          (''message'', JStr ''Question updated''),
                                          (''data'', JObj updatedData)])),
                                       fs')))))))"

subsection \<open>DELETE /questions/:id\<close>

text \<open>The title is read and printed for the log line after the file is gone.\<close>

definition delete_question :: "filesystem \<Rightarrow> string \<Rightarrow> response \<times> filesystem" where
  "delete_question fs qid =
     (let filePath = record_path qid
      in if \<not> existsSync fs filePath then (error_response 404 ''Question not found'', fs)
         else (case read_json fs filePath of
                 Inl e \<Rightarrow> (error_response 500 ''Failed to delete question'', fs)
               | Inr data \<Rightarrow>
                   (case unlinkSync fs filePath of
                      Inl e \<Rightarrow> (error_response 500 ''Failed to delete question'', fs)
                    | Inr fs' \<Rightarrow>
                        (case get_prop data ''title'' of
                           Inl e \<Rightarrow> (error_response 500 ''Failed to delete question'', fs')
                         | Inr title \<Rightarrow>
                             (case template_prop title of
                                Inl e \<Rightarrow> (error_response 500 ''Failed to delete question'', fs')
                              | Inr t \<Rightarrow>
                                  ((200, JsonBody (JObj
                                     [(''success'', JBool True),
                                      (''message'', JStr ''Question deleted'')])),
                                   fs'))))))"

subsection \<open>POST /questions/bulk\<close>

text \<open>
  The loop over \<open>questions\<close>, with its two counters. \<open>now k\<close> is the reading of the clock
  while element \<open>k\<close> of the input is handled, and \<open>k\<close> is \<open>created + skipped\<close>, since
  every element passed so far raised exactly one of the counters. An exception leaves the
  loop with the files written so far.
\<close>

fun bulk_loop ::
    "(nat \<Rightarrow> string) \<Rightarrow> json list \<Rightarrow> filesystem \<Rightarrow> nat \<Rightarrow> nat
      \<Rightarrow> (exn + nat \<times> nat) \<times> filesystem" where
  "bulk_loop now [] fs created skipped = (Inr (created, skipped), fs)"
| "bulk_loop now (JNull # qs) fs created skipped = (Inl TypeError, fs)"
| "bulk_loop now (JObj q # qs) fs created skipped =
     (case map_of q ''_id'' of
        None \<Rightarrow> bulk_loop now qs fs created (skipped + 1)
      | Some qid \<Rightarrow>
          if \<not> truthy qid then bulk_loop now qs fs created (skipped + 1)
          else
            (case template qid of
               Inl e \<Rightarrow> (Inl e, fs)
             | Inr idText \<Rightarrow>
                 (let filePath = record_path idText
                  in if existsSync fs filePath then bulk_loop now qs fs created (skipped + 1)
                     else (case writeFileSync fs filePath
                                  (JSON_stringify
                                    (JObj (AList.update ''updatedAt''
                                             (JStr (now (created + skipped))) q))) of
                             Inl e \<Rightarrow> (Inl e, fs)
                           | Inr fs' \<Rightarrow> bulk_loop now qs fs' (created + 1) skipped))))"
| "bulk_loop now (q # qs) fs created skipped = bulk_loop now qs fs created (skipped + 1)"

text \<open>
  The file the loop composes for a record object whose identifier prints: none when the
  record has no truthy \<open>_id\<close>, for which the loop raises \<open>skipped\<close> before it composes
  a path.
\<close>

definition target_file :: "(string \<times> json) list \<Rightarrow> string option" where
  "target_file q =
     (case map_of q ''_id'' of
        None \<Rightarrow> None
      | Some qid \<Rightarrow> if truthy qid then Some (record_path (to_string qid)) else None)"

definition bulk_import ::
    "filesystem \<Rightarrow> (nat \<Rightarrow> string) \<Rightarrow> (string \<times> json) list \<Rightarrow> response \<times> filesystem" where
  "bulk_import fs now body =
     (case map_of body ''questions'' of
        Some (JArr questions) \<Rightarrow>
          (case bulk_loop now questions fs 0 0 of
             (Inl e, fs') \<Rightarrow> (error_response 500 ''Bulk import failed'', fs')
           | (Inr (created, skipped), fs') \<Rightarrow>
               ((200, JsonBody (JObj
                  [(''success'', JBool True),
                   (''created'', JNum (int created)),
                   (''skipped'', JNum (int skipped))])),
                fs'))
      | _ \<Rightarrow> (error_response 400 ''questions must be an array'', fs))"

section \<open>File routes\<close>

text \<open>\<open>path.join(DATA_DIR, folder, path.basename(filename))\<close>\<close>

definition blob_path :: "string \<Rightarrow> string \<Rightarrow> string" where
  "blob_path folder filename = path_join [DATA_DIR, folder, path_basename filename]"

subsection \<open>GET /files/:folder/:filename\<close>

text \<open>
  \<open>res.sendFile\<close> with its default options, given the path that \<open>path.resolve\<close> makes
  absolute (the same file): a file whose name starts with a dot is ignored and a
  directory passes the request on, both answered 404 by Express's final handler; any
  other file is sent.
\<close>

definition sendFile :: "filesystem \<Rightarrow> string \<Rightarrow> response" where
  "sendFile fs p =
     (if take 1 (entry_name p) = ''.'' then (404, DefaultPage)
      else (case readFileSync fs p of
              Inl e \<Rightarrow> (404, DefaultPage)
            | Inr c \<Rightarrow> (200, FileBody c)))"

definition serve_file :: "filesystem \<Rightarrow> string \<Rightarrow> string \<Rightarrow> response" where
  "serve_file fs folder filename =
     (if folder \<notin> set ALLOWED_FOLDERS then error_response 400 ''Invalid folder''
      else
        (let filePath = blob_path folder filename
         in if \<not> existsSync fs filePath then error_response 404 ''File not found''
            else sendFile fs filePath))"

subsection \<open>DELETE /files/:folder/:filename\<close>

text \<open>
  This handler has no \<open>try\<close>: an exception of \<open>unlinkSync\<close> reaches Express's final
  handler, which answers 500.
\<close>

definition delete_file :: "filesystem \<Rightarrow> string \<Rightarrow> string \<Rightarrow> response \<times> filesystem" where
  "delete_file fs folder filename =
     (if folder \<notin> set ALLOWED_FOLDERS then (error_response 400 ''Invalid folder'', fs)
      else
        (let filePath = blob_path folder filename
         in if \<not> existsSync fs filePath then (error_response 404 ''File not found'', fs)
            else (case unlinkSync fs filePath of
                    Inl e \<Rightarrow> ((500, DefaultPage), fs)
                  | Inr fs' \<Rightarrow>
                      ((200, JsonBody (JObj
                         [(''success'', JBool True), (''message'', JStr ''File deleted'')])),
                       fs'))))"

section \<open>Basic facts about the file system and the path of a record\<close>

lemma QUESTIONS_DIR_eq: "QUESTIONS_DIR = ''data/questions''"
  by (simp add: QUESTIONS_DIR_def DATA_DIR_def path_join_def path_normalize_def
      normalizeString_def normalize_step_def)

lemma writeFileSync_result:
  assumes "writeFileSync fs p c = Inr fs'"
  shows "fs' = fs\<lparr>files := AList.update p c (files fs)\<rparr>" and "p \<notin> set (dirs fs)"
  using assms by (auto simp: writeFileSync_def split: if_splits)

lemma writeFileSync_new:
  assumes "\<not> existsSync fs p" and "valid_path p" and "parent_dir p \<in> set (dirs fs)"
  shows "writeFileSync fs p c = Inr (fs\<lparr>files := AList.update p c (files fs)\<rparr>)"
  using assms by (simp add: writeFileSync_def existsSync_def valid_path_def)

lemma writeFileSync_fails:
  assumes "\<not> existsSync fs p" and "\<not> valid_path p \<or> parent_dir p \<notin> set (dirs fs)"
  shows "\<exists>e. writeFileSync fs p c = Inl e"
  using assms by (auto simp: writeFileSync_def existsSync_def)

lemma writeFileSync_overwrite:
  assumes "readFileSync fs p = Inr c0"
  shows "writeFileSync fs p c = Inr (fs\<lparr>files := AList.update p c (files fs)\<rparr>)"
  using assms by (auto simp: writeFileSync_def readFileSync_def split: if_splits option.splits)

lemma after_write:
  assumes "p \<notin> set (dirs fs)"
  shows "existsSync (fs\<lparr>files := AList.update p c (files fs)\<rparr>) p"
    and "readFileSync (fs\<lparr>files := AList.update p c (files fs)\<rparr>) p = Inr c"
    and "p' \<noteq> p \<Longrightarrow>
           readFileSync (fs\<lparr>files := AList.update p c (files fs)\<rparr>) p' = readFileSync fs p'"
    and "p' \<noteq> p \<Longrightarrow>
           existsSync (fs\<lparr>files := AList.update p c (files fs)\<rparr>) p' = existsSync fs p'"
  using assms by (simp_all add: existsSync_def readFileSync_def update_conv')

lemma not_exists_not_dir: "\<not> existsSync fs p \<Longrightarrow> p \<notin> set (dirs fs)"
  by (simp add: existsSync_def)

lemma template_printable: "printable v \<Longrightarrow> template v = Inr (to_string v)"
  by (simp add: template_def)

lemma template_prop_printable:
  "pred_option printable t \<Longrightarrow> \<exists>s. template_prop t = Inr s"
  by (cases t) (simp_all add: template_def)

lemma template_prop_unprintable:
  "\<not> pred_option printable t \<Longrightarrow> template_prop t = Inl TypeError"
  by (cases t) (simp_all add: template_def)

section \<open>Creating a question\<close>

lemma map_of_stamp_question:
  "map_of (stamp_question r n1 n2 body) k =
     (if k = ''updatedAt'' then Some (JStr n2)
      else if k = ''createdAt'' then Some (or_else (map_of body ''createdAt'') (JStr n1))
      else if k = ''_id'' then Some (question_id r body)
      else map_of body k)"
  by (simp add: stamp_question_def Let_def update_conv')

lemma keys_stamp_question:
  "fst ` set (stamp_question r n1 n2 body) =
     fst ` set body \<union> {''_id'', ''createdAt'', ''updatedAt''}"
  by (auto simp: stamp_question_def Let_def dom_update)

lemma create_question_exists:
  assumes "printable (question_id r body)"
    and "existsSync fs (record_path (to_string (question_id r body)))"
  shows "create_question fs r n1 n2 body =
           (error_response 409 ''Question with this ID already exists'', fs)"
  using assms by (simp add: create_question_def Let_def template_def)

lemma create_question_fresh:
  assumes "printable (question_id r body)"
    and "\<not> existsSync fs (record_path (to_string (question_id r body)))"
    and "valid_path (record_path (to_string (question_id r body)))"
    and "parent_dir (record_path (to_string (question_id r body))) \<in> set (dirs fs)"
  shows "snd (create_question fs r n1 n2 body) =
            fs\<lparr>files := AList.update (record_path (to_string (question_id r body)))
                    (JsonText (JObj (stamp_question r n1 n2 body))) (files fs)\<rparr>"
    and "pred_option printable (map_of body ''title'') \<Longrightarrow>
           fst (create_question fs r n1 n2 body) = created_response (question_id r body)"
    and "\<not> pred_option printable (map_of body ''title'') \<Longrightarrow>
           fst (create_question fs r n1 n2 body) =
             error_response 500 ''Failed to create question''"
proof -
  let ?p = "record_path (to_string (question_id r body))"
  let ?fs' = "fs\<lparr>files := AList.update ?p
                    (JsonText (JObj (stamp_question r n1 n2 body))) (files fs)\<rparr>"
  have t: "map_of (stamp_question r n1 n2 body) ''title'' = map_of body ''title''"
    by (simp add: map_of_stamp_question)
  have c: "create_question fs r n1 n2 body =
             (case template_prop (map_of body ''title'') of
                Inl e \<Rightarrow> (error_response 500 ''Failed to create question'', ?fs')
              | Inr title \<Rightarrow> (created_response (question_id r body), ?fs'))"
    using assms
    by (simp add: create_question_def Let_def template_def writeFileSync_new
        JSON_stringify_def t)
  show "snd (create_question fs r n1 n2 body) = ?fs'"
    unfolding c by (simp split: sum.splits)
  show "fst (create_question fs r n1 n2 body) = created_response (question_id r body)"
    if "pred_option printable (map_of body ''title'')"
    using template_prop_printable [OF that] unfolding c by auto
  show "fst (create_question fs r n1 n2 body) =
          error_response 500 ''Failed to create question''"
    if "\<not> pred_option printable (map_of body ''title'')"
    using template_prop_unprintable [OF that] unfolding c by simp
qed

lemma create_question_fails:
  assumes "\<not> printable (question_id r body)
           \<or> (\<not> existsSync fs (record_path (to_string (question_id r body)))
              \<and> (\<not> valid_path (record_path (to_string (question_id r body)))
                 \<or> parent_dir (record_path (to_string (question_id r body))) \<notin> set (dirs fs)))"
  shows "create_question fs r n1 n2 body =
           (error_response 500 ''Failed to create question'', fs)"
proof (cases "printable (question_id r body)")
  case False
  then show ?thesis by (simp add: create_question_def Let_def template_def)
next
  case True
  with assms have n: "\<not> existsSync fs (record_path (to_string (question_id r body)))"
    and w: "\<not> valid_path (record_path (to_string (question_id r body)))
            \<or> parent_dir (record_path (to_string (question_id r body))) \<notin> set (dirs fs)"
    by auto
  from writeFileSync_fails [OF n w] obtain e where
    "writeFileSync fs (record_path (to_string (question_id r body)))
       (JSON_stringify (JObj (stamp_question r n1 n2 body))) = Inl e"
    by blast
  with True n show ?thesis
    by (simp add: create_question_def Let_def template_def)
qed

lemma create_question_created:
  assumes "create_question fs r n1 n2 body = ((201, b), fs')"
  shows "printable (question_id r body)"
    and "\<not> existsSync fs (record_path (to_string (question_id r body)))"
    and "fs' = fs\<lparr>files := AList.update (record_path (to_string (question_id r body)))
                    (JsonText (JObj (stamp_question r n1 n2 body))) (files fs)\<rparr>"
    and "(201, b) = created_response (question_id r body)"
  using assms
  by (auto simp: create_question_def Let_def JSON_stringify_def error_response_def
      template_def dest: writeFileSync_result split: if_splits sum.splits)


text \<open>
  Claim C2, amended. Let \<open>p\<close> be the file of the identifier of a create call, an
  identifier that prints. If something exists at \<open>p\<close>, the call answers 409 and the whole
  store, the first record included, is the one it was before. If nothing exists at \<open>p\<close>
  and the file can be created (its name is valid and its directory is there), the call
  stores the serialisation of the complete stamped document at \<open>p\<close>, answers 201 when the
  title prints, and every later create whose identifier gives the same file answers 409
  and leaves the store as it is. If the file cannot be created, or the identifier does not
  print, the call answers 500 and the store is unchanged. The claim as written promises
  the write whenever no record exists; an identifier such as \<open>nodir/b\<close> has no record and
  is answered 500.
\<close>

theorem create_question_unique:
  assumes "qid = question_id randomId body" and "p = record_path (to_string qid)"
  shows "(printable qid \<and> existsSync fs p \<longrightarrow>
            create_question fs randomId now1 now2 body =
              (error_response 409 ''Question with this ID already exists'', fs))
       \<and> (printable qid \<and> \<not> existsSync fs p \<and> valid_path p \<and> parent_dir p \<in> set (dirs fs) \<longrightarrow>
            (\<exists>fs'. snd (create_question fs randomId now1 now2 body) = fs'
               \<and> readFileSync fs' p =
                   Inr (JSON_stringify (JObj (stamp_question randomId now1 now2 body)))
               \<and> (pred_option printable (map_of body ''title'') \<longrightarrow>
                     create_question fs randomId now1 now2 body = (created_response qid, fs'))
               \<and> (\<forall>r' n1' n2' body'.
                     printable (question_id r' body')
                     \<and> record_path (to_string (question_id r' body')) = p \<longrightarrow>
                     create_question fs' r' n1' n2' body' =
                       (error_response 409 ''Question with this ID already exists'', fs'))))
       \<and> (\<not> printable qid
            \<or> (\<not> existsSync fs p \<and> (\<not> valid_path p \<or> parent_dir p \<notin> set (dirs fs))) \<longrightarrow>
            create_question fs randomId now1 now2 body =
              (error_response 500 ''Failed to create question'', fs))"
proof (intro conjI impI)
  assume "printable qid \<and> existsSync fs p"
  with assms show "create_question fs randomId now1 now2 body =
      (error_response 409 ''Question with this ID already exists'', fs)"
    by (simp add: create_question_exists)
next
  assume a: "printable qid \<and> \<not> existsSync fs p \<and> valid_path p \<and> parent_dir p \<in> set (dirs fs)"
  let ?c = "JsonText (JObj (stamp_question randomId now1 now2 body))"
  let ?fs' = "fs\<lparr>files := AList.update p ?c (files fs)\<rparr>"
  from a have nd: "p \<notin> set (dirs fs)" by (simp add: not_exists_not_dir)
  from a assms have h: "printable (question_id randomId body)"
    "\<not> existsSync fs (record_path (to_string (question_id randomId body)))"
    "valid_path (record_path (to_string (question_id randomId body)))"
    "parent_dir (record_path (to_string (question_id randomId body))) \<in> set (dirs fs)"
    by simp_all
  note f = create_question_fresh [OF h, of now1 now2]
  have 1: "snd (create_question fs randomId now1 now2 body) = ?fs'"
    using f(1) assms by simp
  have 2: "readFileSync ?fs' p =
      Inr (JSON_stringify (JObj (stamp_question randomId now1 now2 body)))"
    using after_write(2) [OF nd] by (simp add: JSON_stringify_def)
  have 3: "create_question fs randomId now1 now2 body = (created_response qid, ?fs')"
    if "pred_option printable (map_of body ''title'')"
    using f(2) [OF that] 1 assms(1) by (simp add: prod_eq_iff)
  have ex: "existsSync ?fs' p" using after_write(1) [OF nd] .
  have 4: "create_question ?fs' r' n1' n2' body' =
      (error_response 409 ''Question with this ID already exists'', ?fs')"
    if "printable (question_id r' body')
        \<and> record_path (to_string (question_id r' body')) = p" for r' n1' n2' body'
    using that ex create_question_exists [of r' body' ?fs' n1' n2'] by simp
  from 1 2 3 4 show "\<exists>fs'. snd (create_question fs randomId now1 now2 body) = fs'
               \<and> readFileSync fs' p =
                   Inr (JSON_stringify (JObj (stamp_question randomId now1 now2 body)))
               \<and> (pred_option printable (map_of body ''title'') \<longrightarrow>
                     create_question fs randomId now1 now2 body = (created_response qid, fs'))
               \<and> (\<forall>r' n1' n2' body'.
                     printable (question_id r' body')
                     \<and> record_path (to_string (question_id r' body')) = p \<longrightarrow>
                     create_question fs' r' n1' n2' body' =
                       (error_response 409 ''Question with this ID already exists'', fs'))"
    by (intro exI [of _ ?fs']) simp
next
  assume "\<not> printable qid
            \<or> (\<not> existsSync fs p \<and> (\<not> valid_path p \<or> parent_dir p \<notin> set (dirs fs)))"
  with assms show "create_question fs randomId now1 now2 body =
      (error_response 500 ''Failed to create question'', fs)"
    using create_question_fails [of randomId body fs now1 now2] by simp
qed

lemma record_path_q1: "record_path ''q1'' = ''data/questions/q1.json''"
  by code_simp

lemma valid_path_q1: "valid_path ''data/questions/q1.json''"
  by code_simp

text \<open>
  On an empty store, creating \<open>q1\<close> writes its file and answers 201, and a second create
  with the same identifier is refused and changes nothing.
\<close>

theorem create_question_unique_witness:
  "\<not> existsSync \<lparr>files = [], dirs = [''.'', ''data'', ''data/questions'']\<rparr>
        ''data/questions/q1.json''
   \<and> (\<exists>fs'. create_question \<lparr>files = [], dirs = [''.'', ''data'', ''data/questions'']\<rparr>
                ''5f2b'' ''t1'' ''t2'' [(''_id'', JStr ''q1''), (''title'', JStr ''Two Sum'')]
              = (created_response (JStr ''q1''), fs')
          \<and> readFileSync fs' ''data/questions/q1.json''
              = Inr (JsonText (JObj [(''_id'', JStr ''q1''), (''title'', JStr ''Two Sum''),
                                      (''createdAt'', JStr ''t1''), (''updatedAt'', JStr ''t2'')]))
          \<and> create_question fs' ''77aa'' ''t3'' ''t4''
                [(''_id'', JStr ''q1''), (''title'', JStr ''Other'')]
              = (error_response 409 ''Question with this ID already exists'', fs'))"
proof -
  let ?fs = "\<lparr>files = [], dirs = [''.'', ''data'', ''data/questions'']\<rparr>"
  let ?body = "[(''_id'', JStr ''q1''), (''title'', JStr ''Two Sum'')]"
  let ?body' = "[(''_id'', JStr ''q1''), (''title'', JStr ''Other'')]"
  have q: "JStr ''q1'' = question_id ''5f2b'' ?body"
    by (simp add: question_id_def)
  have p: "''data/questions/q1.json'' = record_path (to_string (JStr ''q1''))"
    by (simp add: record_path_q1)
  have p': "printable (question_id ''77aa'' ?body')
            \<and> record_path (to_string (question_id ''77aa'' ?body')) = ''data/questions/q1.json''"
    by (simp add: question_id_def record_path_q1)
  have ne: "\<not> existsSync ?fs ''data/questions/q1.json''"
    by (simp add: existsSync_def)
  have pd: "parent_dir ''data/questions/q1.json'' \<in> set (dirs ?fs)"
    by (simp add: parent_dir_def)
  have pr: "printable (JStr ''q1'')" "pred_option printable (map_of ?body ''title'')"
    by simp_all
  have st: "stamp_question ''5f2b'' ''t1'' ''t2'' ?body =
      [(''_id'', JStr ''q1''), (''title'', JStr ''Two Sum''),
       (''createdAt'', JStr ''t1''), (''updatedAt'', JStr ''t2'')]"
    by (simp add: stamp_question_def question_id_def)
  have hyp: "printable (JStr ''q1'') \<and> \<not> existsSync ?fs ''data/questions/q1.json''
             \<and> valid_path ''data/questions/q1.json''
             \<and> parent_dir ''data/questions/q1.json'' \<in> set (dirs ?fs)"
    using ne pd pr(1) valid_path_q1 by (intro conjI)
  note T = create_question_unique [OF q p, of ?fs "''t1''" "''t2''"]
  from T [THEN conjunct2, THEN conjunct1, THEN mp, OF hyp] pr(2) p' ne
  show ?thesis
    apply (elim exE conjE)
    subgoal for fs'
      apply (drule spec [of _ "''77aa''"], drule spec [of _ "''t3''"],
             drule spec [of _ "''t4''"], drule spec [of _ ?body'])
      apply (rule conjI, assumption)
      apply (rule exI [of _ fs'])
      apply (simp add: st JSON_stringify_def)
      done
    done
qed

text \<open>
  A create whose identifier is \<open>nodir/b\<close>: no record exists for it, and the call answers
  500 and writes nothing, because the directory \<open>data/questions/nodir\<close> is missing.
\<close>

theorem create_question_missing_dir_counterexample:
  "\<not> existsSync \<lparr>files = [], dirs = [''.'', ''data'', ''data/questions'']\<rparr>
        (record_path ''nodir/b'')
   \<and> create_question \<lparr>files = [], dirs = [''.'', ''data'', ''data/questions'']\<rparr>
        ''5f2b'' ''t1'' ''t2'' [(''_id'', JStr ''nodir/b''), (''title'', JStr ''B'')]
      = (error_response 500 ''Failed to create question'',
         \<lparr>files = [], dirs = [''.'', ''data'', ''data/questions'']\<rparr>)"
  by code_simp

text \<open>
  An identifier of 300 characters names no record, and its file name is longer than the
  file system allows: the write throws, create answers 500 and nothing is stored.
\<close>

lemma create_question_long_name:
  "\<not> existsSync \<lparr>files = [], dirs = [''.'', ''data'', ''data/questions'']\<rparr>
        (record_path (replicate 300 CHR ''a''))
   \<and> create_question \<lparr>files = [], dirs = [''.'', ''data'', ''data/questions'']\<rparr>
        ''5f2b'' ''t1'' ''t2'' [(''_id'', JStr (replicate 300 CHR ''a''))]
      = (error_response 500 ''Failed to create question'',
         \<lparr>files = [], dirs = [''.'', ''data'', ''data/questions'']\<rparr>)"
  by code_simp

text \<open>
  Claim C4, amended. Let create be called with fields \<open>F\<close> whose identifier prints and
  names a file that does not exist and can be created. Then create stores the record,
  answers 201 with the identifier when the title prints, and getting the record by that
  identifier returns a document whose keys are exactly those of \<open>F\<close> together with
  \<open>_id\<close>, \<open>createdAt\<close> and \<open>updatedAt\<close>; every field of \<open>F\<close> other than these three
  comes back unchanged; \<open>_id\<close> and \<open>createdAt\<close> are those of \<open>F\<close> when \<open>F\<close> has them
  truthy, else the generated identifier and the clock reading; \<open>updatedAt\<close> is always
  the clock reading. The claim as written says that the fields of \<open>F\<close> come back as they
  are; an \<open>updatedAt\<close> in \<open>F\<close> does not.
\<close>

theorem create_then_get_roundtrip:
  assumes "qid = question_id randomId F" and "p = record_path (to_string qid)"
    and "printable qid" and "\<not> existsSync fs p" and "valid_path p"
    and "parent_dir p \<in> set (dirs fs)"
  shows "\<exists>doc. get_question (snd (create_question fs randomId now1 now2 F)) (to_string qid) =
                 (200, JsonBody (JObj [(''success'', JBool True), (''data'', JObj doc)]))
           \<and> (pred_option printable (map_of F ''title'') \<longrightarrow>
                 fst (create_question fs randomId now1 now2 F) = created_response qid)
           \<and> fst ` set doc = fst ` set F \<union> {''_id'', ''createdAt'', ''updatedAt''}
           \<and> (\<forall>k. k \<notin> {''_id'', ''createdAt'', ''updatedAt''} \<longrightarrow> map_of doc k = map_of F k)
           \<and> map_of doc ''_id'' = Some (or_else (map_of F ''_id'') (JStr randomId))
           \<and> map_of doc ''createdAt'' = Some (or_else (map_of F ''createdAt'') (JStr now1))
           \<and> map_of doc ''updatedAt'' = Some (JStr now2)"
proof -
  let ?doc = "stamp_question randomId now1 now2 F"
  let ?fs' = "fs\<lparr>files := AList.update p (JsonText (JObj ?doc)) (files fs)\<rparr>"
  from assms have h: "printable (question_id randomId F)"
    "\<not> existsSync fs (record_path (to_string (question_id randomId F)))"
    "valid_path (record_path (to_string (question_id randomId F)))"
    "parent_dir (record_path (to_string (question_id randomId F))) \<in> set (dirs fs)"
    by simp_all
  note f = create_question_fresh [OF h, of now1 now2]
  from f(1) assms have s: "snd (create_question fs randomId now1 now2 F) = ?fs'" by simp
  from assms(4) have nd: "p \<notin> set (dirs fs)" by (rule not_exists_not_dir)
  have "get_question ?fs' (to_string qid) =
          (200, JsonBody (JObj [(''success'', JBool True), (''data'', JObj ?doc)]))"
    using after_write(1,2) [OF nd] assms(2)
    by (simp add: get_question_def read_json_def)
  moreover have "pred_option printable (map_of F ''title'') \<longrightarrow>
                 fst (create_question fs randomId now1 now2 F) = created_response qid"
    using f(2) assms(1) by simp
  ultimately show ?thesis
    using keys_stamp_question [of randomId now1 now2 F]
    by (intro exI [of _ ?doc]) (simp add: s map_of_stamp_question question_id_def)
qed

text \<open>
  On an empty store, creating \<open>q1\<close> with a title answers 201, and getting \<open>q1\<close> returns
  the title and the three added fields.
\<close>

theorem create_then_get_roundtrip_witness:
  "\<exists>doc. get_question
            (snd (create_question \<lparr>files = [], dirs = [''.'', ''data'', ''data/questions'']\<rparr>
                    ''5f2b'' ''t1'' ''t2''
                    [(''_id'', JStr ''q1''), (''title'', JStr ''Two Sum'')])) ''q1'' =
            (200, JsonBody (JObj [(''success'', JBool True), (''data'', JObj doc)]))
         \<and> fst (create_question \<lparr>files = [], dirs = [''.'', ''data'', ''data/questions'']\<rparr>
                    ''5f2b'' ''t1'' ''t2''
                    [(''_id'', JStr ''q1''), (''title'', JStr ''Two Sum'')])
             = created_response (JStr ''q1'')
         \<and> fst ` set doc = {''_id'', ''title'', ''createdAt'', ''updatedAt''}
         \<and> map_of doc ''title'' = Some (JStr ''Two Sum'')
         \<and> map_of doc ''_id'' = Some (JStr ''q1'')
         \<and> map_of doc ''createdAt'' = Some (JStr ''t1'')
         \<and> map_of doc ''updatedAt'' = Some (JStr ''t2'')"
proof -
  let ?fs = "\<lparr>files = [], dirs = [''.'', ''data'', ''data/questions'']\<rparr>"
  let ?F = "[(''_id'', JStr ''q1''), (''title'', JStr ''Two Sum'')]"
  have q: "JStr ''q1'' = question_id ''5f2b'' ?F"
    by (simp add: question_id_def)
  have p: "''data/questions/q1.json'' = record_path (to_string (JStr ''q1''))"
    by (simp add: record_path_q1)
  have pr: "printable (JStr ''q1'')" by simp
  have ne: "\<not> existsSync ?fs ''data/questions/q1.json''"
    by (simp add: existsSync_def)
  have pd: "parent_dir ''data/questions/q1.json'' \<in> set (dirs ?fs)"
    by (simp add: parent_dir_def)
  from create_then_get_roundtrip [OF q p pr ne valid_path_q1 pd, of "''t1''" "''t2''"]
  show ?thesis
    apply (elim exE conjE)
    subgoal for doc
      apply (drule spec [of _ "''title''"])
      apply (rule exI [of _ doc])
      apply auto
      done
    done
qed

text \<open>
  A payload that carries \<open>updatedAt\<close>: create answers 201, and the record that get returns
  has the clock reading in \<open>updatedAt\<close>, not the value of the payload.
\<close>

theorem create_then_get_updatedAt_counterexample:
  "map_of [(''_id'', JStr ''q3''), (''updatedAt'', JStr ''1999'')] ''updatedAt''
     = Some (JStr ''1999'')
   \<and> fst (create_question \<lparr>files = [], dirs = [''.'', ''data'', ''data/questions'']\<rparr>
            ''5f2b'' ''t1'' ''t2'' [(''_id'', JStr ''q3''), (''updatedAt'', JStr ''1999'')])
      = created_response (JStr ''q3'')
   \<and> get_question
        (snd (create_question \<lparr>files = [], dirs = [''.'', ''data'', ''data/questions'']\<rparr>
                ''5f2b'' ''t1'' ''t2'' [(''_id'', JStr ''q3''), (''updatedAt'', JStr ''1999'')]))
        ''q3''
      = (200, JsonBody (JObj
           [(''success'', JBool True),
            (''data'', JObj [(''_id'', JStr ''q3''), (''updatedAt'', JStr ''t2''),
                             (''createdAt'', JStr ''t1'')])]))"
  by code_simp

lemma create_q1_example:
  "create_question \<lparr>files = [], dirs = [''.'', ''data'', ''data/questions'']\<rparr>
      ''5f2b'' ''t1'' ''t2'' [(''_id'', JStr ''q1''), (''title'', JStr ''Two Sum'')]
   = ((201, JsonBody (JObj
        [(''success'', JBool True),
         (''message'', JStr ''Question created''),
         (''data'', JObj
            [(''_id'', JStr ''q1''),
             (''questionUrl'', JStr ''http://localhost:3000/questions/q1'')])])),
      \<lparr>files = [(''data/questions/q1.json'',
                  JsonText (JObj [(''_id'', JStr ''q1''), (''title'', JStr ''Two Sum''),
                                  (''createdAt'', JStr ''t1''), (''updatedAt'', JStr ''t2'')]))],
       dirs = [''.'', ''data'', ''data/questions'']\<rparr>)"
  by code_simp

text \<open>
  Claim C9, amended. When create answers 201, the stored document carries the caller's
  \<open>createdAt\<close> if the payload has one that is truthy, and the first clock reading if the
  payload has none or has a falsy one (\<open>null\<close>, \<open>false\<close>, \<open>0\<close>, the empty string);
  \<open>updatedAt\<close> is the second clock reading in every case. The claim as written, that
  a \<open>createdAt\<close> present in the payload is always stored unchanged, fails for the falsy
  values: the server writes \<open>questionData.createdAt || new Date().toISOString()\<close>.
\<close>

theorem create_question_createdAt:
  assumes "create_question fs randomId now1 now2 body = ((201, b), fs')"
  shows "\<exists>doc. read_json fs' (record_path (to_string (question_id randomId body))) = Inr (JObj doc)
           \<and> map_of doc ''createdAt'' =
               Some (case map_of body ''createdAt'' of
                       None \<Rightarrow> JStr now1
                     | Some v \<Rightarrow> if truthy v then v else JStr now1)
           \<and> map_of doc ''updatedAt'' = Some (JStr now2)"
proof -
  let ?p = "record_path (to_string (question_id randomId body))"
  let ?doc = "stamp_question randomId now1 now2 body"
  note c = create_question_created [OF assms]
  from c(2) have nd: "?p \<notin> set (dirs fs)" by (rule not_exists_not_dir)
  have "read_json fs' ?p = Inr (JObj ?doc)"
    using after_write(2) [OF nd] c(3) by (simp add: read_json_def)
  then show ?thesis
    by (intro exI [of _ ?doc]) (simp add: map_of_stamp_question split: option.splits)
qed

text \<open>
  The record \<open>q1\<close>, created without a \<open>createdAt\<close>, is stamped with both clock readings.
\<close>

theorem create_question_createdAt_witness:
  "\<exists>doc. read_json
            \<lparr>files = [(''data/questions/q1.json'',
                  JsonText (JObj [(''_id'', JStr ''q1''), (''title'', JStr ''Two Sum''),
                                  (''createdAt'', JStr ''t1''), (''updatedAt'', JStr ''t2'')]))],
             dirs = [''.'', ''data'', ''data/questions'']\<rparr> ''data/questions/q1.json'' = Inr (JObj doc)
         \<and> map_of doc ''createdAt'' = Some (JStr ''t1'')
         \<and> map_of doc ''updatedAt'' = Some (JStr ''t2'')"
  using create_question_createdAt [OF create_q1_example]
  by (simp add: question_id_def record_path_q1)

text \<open>
  A payload that contains \<open>createdAt: null\<close> is stored with \<open>createdAt\<close> set to the
  clock reading, not to the caller's value.
\<close>

theorem create_question_null_createdAt_counterexample:
  "map_of [(''_id'', JStr ''q2''), (''createdAt'', JNull)] ''createdAt'' = Some JNull
   \<and> create_question \<lparr>files = [], dirs = [''.'', ''data'', ''data/questions'']\<rparr>
        ''5f2b'' ''t1'' ''t2'' [(''_id'', JStr ''q2''), (''createdAt'', JNull)]
      = (created_response (JStr ''q2''),
         \<lparr>files = [(''data/questions/q2.json'',
                     JsonText (JObj [(''_id'', JStr ''q2''), (''createdAt'', JStr ''t1''),
                                     (''updatedAt'', JStr ''t2'')]))],
          dirs = [''.'', ''data'', ''data/questions'']\<rparr>)"
  by code_simp

text \<open>
  Claim C1 asks that the file composed from a record identifier stay inside the questions
  directory. The code joins the identifier into the path as it is. The identifier
  \<open>../../package\<close> names the file \<open>package.json\<close> outside the data directory: getting it
  returns that file's content, deleting it removes that file, and creating a record with
  identifier \<open>../x\<close> writes \<open>data/x.json\<close>, beside the questions directory.
\<close>

theorem record_path_escapes_questions_dir:
  "record_path ''../../package'' = ''package.json''
   \<and> \<not> inside_dir QUESTIONS_DIR (record_path ''../../package'')
   \<and> get_question
        \<lparr>files = [(''package.json'', JsonText (JObj [(''name'', JStr ''oracle-api'')]))],
         dirs = [''.'', ''data'', ''data/questions'']\<rparr> ''../../package''
      = (200, JsonBody (JObj [(''success'', JBool True),
                              (''data'', JObj [(''name'', JStr ''oracle-api'')])]))
   \<and> delete_question
        \<lparr>files = [(''package.json'', JsonText (JObj [(''name'', JStr ''oracle-api'')]))],
         dirs = [''.'', ''data'', ''data/questions'']\<rparr> ''../../package''
      = ((200, JsonBody (JObj [(''success'', JBool True),
                               (''message'', JStr ''Question deleted'')])),
         \<lparr>files = [], dirs = [''.'', ''data'', ''data/questions'']\<rparr>)
   \<and> snd (create_question \<lparr>files = [], dirs = [''.'', ''data'', ''data/questions'']\<rparr>
             ''5f2b'' ''t1'' ''t2'' [(''_id'', JStr ''../x'')])
      = \<lparr>files = [(''data/x.json'',
                    JsonText (JObj [(''_id'', JStr ''../x''), (''createdAt'', JStr ''t1''),
                                    (''updatedAt'', JStr ''t2'')]))],
         dirs = [''.'', ''data'', ''data/questions'']\<rparr>"
  by code_simp

section \<open>Updating a question\<close>

lemma map_of_put_prop: "map_of (put_prop k v kv) = (map_of kv)(k := v)"
  by (cases v) (simp_all add: update_conv' delete_conv')

lemma map_of_object_assign:
  assumes "distinct (map fst source)"
  shows "map_of (object_assign target source) k =
           (case map_of source k of None \<Rightarrow> map_of target k | Some v \<Rightarrow> Some v)"
  using assms unfolding object_assign_def
proof (induction source arbitrary: target)
  case Nil
  then show ?case by simp
next
  case (Cons kv source)
  obtain k' v' where kv: "kv = (k', v')" by (cases kv)
  from Cons.prems kv have n: "map_of source k' = None" and d: "distinct (map fst source)"
    by (auto simp: map_of_eq_None_iff)
  show ?case
    using n by (auto simp: kv Cons.IH [OF d] update_conv' split: option.splits)
qed

lemma update_question_existing:
  assumes "readFileSync fs (record_path qid) = Inr (JsonText (JObj existing))"
    and "doc = put_prop ''updatedAt'' (Some (JStr now))
                 (put_prop ''createdAt'' (map_of existing ''createdAt'')
                   (put_prop ''_id'' (Some (JStr qid)) (object_assign existing patch)))"
  shows "snd (update_question fs now qid patch) =
           fs\<lparr>files := AList.update (record_path qid) (JsonText (JObj doc)) (files fs)\<rparr>"
    and "pred_option printable (map_of doc ''title'') \<Longrightarrow>
           fst (update_question fs now qid patch) =
             (200, JsonBody (JObj
                [(''success'', JBool True),
                 (''message'', JStr ''Question updated''),
                 (''data'', JObj doc)]))"
proof -
  let ?fs' = "fs\<lparr>files := AList.update (record_path qid) (JsonText (JObj doc)) (files fs)\<rparr>"
  from assms(1) have ex: "existsSync fs (record_path qid)"
    by (auto simp: readFileSync_def existsSync_def split: if_splits option.splits)
  from assms(1) have rj: "read_json fs (record_path qid) = Inr (JObj existing)"
    by (simp add: read_json_def)
  have u: "update_question fs now qid patch =
             (case template_prop (map_of doc ''title'') of
                Inl e \<Rightarrow> (error_response 500 ''Failed to update question'', ?fs')
              | Inr title \<Rightarrow>
                  ((200, JsonBody (JObj
                      [(''success'', JBool True),
                       (''message'', JStr ''Question updated''),
                       (''data'', JObj doc)])), ?fs'))"
    using ex rj writeFileSync_overwrite [OF assms(1)]
    unfolding assms(2)
    by (simp add: update_question_def Let_def JSON_stringify_def del: put_prop.simps)
  show "snd (update_question fs now qid patch) = ?fs'"
    unfolding u by (simp split: sum.splits)
  show "fst (update_question fs now qid patch) =
             (200, JsonBody (JObj
                [(''success'', JBool True),
                 (''message'', JStr ''Question updated''),
                 (''data'', JObj doc)]))"
    if "pred_option printable (map_of doc ''title'')"
    using template_prop_printable [OF that] unfolding u by auto
qed

text \<open>
  Claim C3, amended. For a stored record that is a JSON object and a patch (an object,
  each key once), update stores the shallow merge and answers 200 with it when the merged
  title prints: \<open>createdAt\<close> is what
  the stored record had (also when it had none), whatever the patch says; \<open>_id\<close> is the
  identifier of the request path, whatever the patch says; \<open>updatedAt\<close> is the clock
  reading; every other field is the patch's when the patch has it and the stored one
  otherwise. No other file changes. The claim as written says that \<open>_id\<close> keeps its
  stored value; the code writes the path identifier, a string, which differs from the
  stored \<open>_id\<close> when the record was created with a non-string identifier.
\<close>

theorem update_question_merge:
  assumes "readFileSync fs (record_path qid) = Inr (JsonText (JObj existing))"
    and "distinct (map fst patch)"
  shows "\<exists>doc fs'.
           snd (update_question fs now qid patch) = fs'
         \<and> (pred_option printable (map_of doc ''title'') \<longrightarrow>
              update_question fs now qid patch =
                ((200, JsonBody (JObj [(''success'', JBool True),
                                       (''message'', JStr ''Question updated''),
                                       (''data'', JObj doc)])), fs'))
         \<and> read_json fs' (record_path qid) = Inr (JObj doc)
         \<and> map_of doc ''_id'' = Some (JStr qid)
         \<and> map_of doc ''createdAt'' = map_of existing ''createdAt''
         \<and> map_of doc ''updatedAt'' = Some (JStr now)
         \<and> (\<forall>k. k \<notin> {''_id'', ''createdAt'', ''updatedAt''} \<longrightarrow>
                map_of doc k = (case map_of patch k of
                                  Some v \<Rightarrow> Some v
                                | None \<Rightarrow> map_of existing k))
         \<and> (\<forall>p'. p' \<noteq> record_path qid \<longrightarrow> readFileSync fs' p' = readFileSync fs p')"
proof -
  let ?p = "record_path qid"
  let ?doc = "put_prop ''updatedAt'' (Some (JStr now))
               (put_prop ''createdAt'' (map_of existing ''createdAt'')
                 (put_prop ''_id'' (Some (JStr qid)) (object_assign existing patch)))"
  let ?fs' = "fs\<lparr>files := AList.update ?p (JsonText (JObj ?doc)) (files fs)\<rparr>"
  from assms(1) have nd: "?p \<notin> set (dirs fs)"
    by (auto simp: readFileSync_def split: if_splits)
  note e = update_question_existing [OF assms(1) refl, of now patch]
  have s: "snd (update_question fs now qid patch) = ?fs'"
    by (rule e(1))
  have u: "pred_option printable (map_of ?doc ''title'') \<longrightarrow>
           update_question fs now qid patch =
             ((200, JsonBody (JObj [(''success'', JBool True),
                                    (''message'', JStr ''Question updated''),
                                    (''data'', JObj ?doc)])), ?fs')"
    using e(1) e(2) by (simp add: prod_eq_iff)
  have r: "read_json ?fs' ?p = Inr (JObj ?doc)"
    using after_write(2) [OF nd] by (simp add: read_json_def)
  have o: "\<forall>k. k \<notin> {''_id'', ''createdAt'', ''updatedAt''} \<longrightarrow>
                map_of ?doc k = (case map_of patch k of
                                  Some v \<Rightarrow> Some v
                                | None \<Rightarrow> map_of existing k)"
    by (simp add: map_of_put_prop update_conv' map_of_object_assign [OF assms(2)])
  have f: "\<forall>p'. p' \<noteq> ?p \<longrightarrow> readFileSync ?fs' p' = readFileSync fs p'"
    using after_write(3) [OF nd] by simp
  have i: "map_of ?doc ''_id'' = Some (JStr qid)"
    "map_of ?doc ''createdAt'' = map_of existing ''createdAt''"
    "map_of ?doc ''updatedAt'' = Some (JStr now)"
    by (simp_all add: map_of_put_prop update_conv')
  from s u r i o f show ?thesis
    by (intro exI [of _ ?doc] exI [of _ ?fs'] conjI)
qed


text \<open>
  A patch that sets the title and tries to change \<open>_id\<close> and \<open>createdAt\<close> of \<open>q1\<close>
  changes the title and \<open>updatedAt\<close> only.
\<close>

theorem update_question_merge_witness:
  "\<exists>doc fs'.
     update_question
       \<lparr>files = [(''data/questions/q1.json'',
                   JsonText (JObj [(''_id'', JStr ''q1''), (''title'', JStr ''Two Sum''),
                                   (''createdAt'', JStr ''t1''), (''updatedAt'', JStr ''t2'')]))],
        dirs = [''.'', ''data'', ''data/questions'']\<rparr>
       ''t5'' ''q1''
       [(''title'', JStr ''X''), (''_id'', JStr ''other''), (''createdAt'', JStr ''t0'')]
     = ((200, JsonBody (JObj [(''success'', JBool True),
                              (''message'', JStr ''Question updated''),
                              (''data'', JObj doc)])), fs')
   \<and> read_json fs' ''data/questions/q1.json'' = Inr (JObj doc)
   \<and> map_of doc ''_id'' = Some (JStr ''q1'')
   \<and> map_of doc ''createdAt'' = Some (JStr ''t1'')
   \<and> map_of doc ''updatedAt'' = Some (JStr ''t5'')
   \<and> map_of doc ''title'' = Some (JStr ''X'')"
proof -
  let ?existing = "[(''_id'', JStr ''q1''), (''title'', JStr ''Two Sum''),
                    (''createdAt'', JStr ''t1''), (''updatedAt'', JStr ''t2'')]"
  let ?fs = "\<lparr>files = [(''data/questions/q1.json'', JsonText (JObj ?existing))],
              dirs = [''.'', ''data'', ''data/questions'']\<rparr>"
  let ?patch = "[(''title'', JStr ''X''), (''_id'', JStr ''other''), (''createdAt'', JStr ''t0'')]"
  have r: "readFileSync ?fs (record_path ''q1'') = Inr (JsonText (JObj ?existing))"
    by (simp add: record_path_q1 readFileSync_def)
  have d: "distinct (map fst ?patch)" by simp
  show ?thesis
    using update_question_merge [OF r d, of "''t5''"]
    apply (elim exE conjE)
    subgoal for doc fs'
      apply (drule spec [of _ "''title''"])
      apply (rule exI [of _ doc], rule exI [of _ fs'])
      apply (simp add: record_path_q1)
      done
    done
qed


text \<open>
  A record created with the numeric identifier 5 is stored in \<open>5.json\<close> with
  \<open>_id\<close> the number 5. Updating it through \<open>/questions/5\<close> stores \<open>_id\<close> as the
  string \<open>5\<close>: the stored \<open>_id\<close> is not the value it was before.
\<close>

theorem update_question_numeric_id_counterexample:
  "create_question \<lparr>files = [], dirs = [''.'', ''data'', ''data/questions'']\<rparr>
      ''5f2b'' ''t1'' ''t2'' [(''_id'', JNum 5), (''title'', JStr ''A'')]
    = (created_response (JNum 5),
       \<lparr>files = [(''data/questions/5.json'',
                   JsonText (JObj [(''_id'', JNum 5), (''title'', JStr ''A''),
                                   (''createdAt'', JStr ''t1''), (''updatedAt'', JStr ''t2'')]))],
        dirs = [''.'', ''data'', ''data/questions'']\<rparr>)
   \<and> update_question
       \<lparr>files = [(''data/questions/5.json'',
                   JsonText (JObj [(''_id'', JNum 5), (''title'', JStr ''A''),
                                   (''createdAt'', JStr ''t1''), (''updatedAt'', JStr ''t2'')]))],
        dirs = [''.'', ''data'', ''data/questions'']\<rparr>
       ''t3'' ''5'' [(''title'', JStr ''X'')]
    = ((200, JsonBody (JObj
          [(''success'', JBool True),
           (''message'', JStr ''Question updated''),
           (''data'', JObj [(''_id'', JStr ''5''), (''title'', JStr ''X''),
                            (''createdAt'', JStr ''t1''), (''updatedAt'', JStr ''t3'')])])),
       \<lparr>files = [(''data/questions/5.json'',
                   JsonText (JObj [(''_id'', JStr ''5''), (''title'', JStr ''X''),
                                   (''createdAt'', JStr ''t1''), (''updatedAt'', JStr ''t3'')]))],
        dirs = [''.'', ''data'', ''data/questions'']\<rparr>)
   \<and> JNum 5 \<noteq> JStr ''5''"
  by code_simp

section \<open>Scanning the questions directory\<close>

lemma map_exn_Inr:
  "map_exn f xs = Inr ys \<Longrightarrow> list_all2 (\<lambda>x y. f x = Inr y) xs ys"
  by (induction xs arbitrary: ys) (auto split: sum.splits)

lemma map_exn_fails:
  "x \<in> set xs \<Longrightarrow> f x = Inl e \<Longrightarrow> \<exists>e'. map_exn f xs = Inl e'"
  by (induction xs) (auto split: sum.splits)

lemma keys_fold_put_prop:
  "fst ` set (fold (\<lambda>(k, v). put_prop k v) props acc) \<subseteq> fst ` set acc \<union> fst ` set props"
proof (induction props arbitrary: acc)
  case Nil
  then show ?case by simp
next
  case (Cons kv props)
  obtain k v where kv: "kv = (k, v)" by (cases kv)
  have "fst ` set (put_prop k v acc) \<subseteq> insert k (fst ` set acc)"
    using dom_delete_subset [of k acc] by (cases v) (auto simp: dom_update)
  with Cons.IH [of "put_prop k v acc"] show ?case
    by (auto simp: kv)
qed

lemma keys_object_literal: "fst ` set (object_literal props) \<subseteq> fst ` set props"
  using keys_fold_put_prop [of props "[]"] by (simp add: object_literal_def)

lemma map_of_fold_put_prop:
  assumes "distinct (map fst props)"
  shows "map_of (fold (\<lambda>(k, v). put_prop k v) props acc) k =
           (case map_of props k of None \<Rightarrow> map_of acc k | Some v \<Rightarrow> v)"
  using assms
proof (induction props arbitrary: acc)
  case Nil
  then show ?case by simp
next
  case (Cons kv props)
  obtain k' v' where kv: "kv = (k', v')" by (cases kv)
  from Cons.prems kv have n: "map_of props k' = None" and d: "distinct (map fst props)"
    by (auto simp: map_of_eq_None_iff)
  show ?case
    using n by (auto simp: kv Cons.IH [OF d] map_of_put_prop split: option.splits)
qed

lemma map_of_object_literal:
  assumes "distinct (map fst props)"
  shows "map_of (object_literal props) k = (case map_of props k of None \<Rightarrow> None | Some v \<Rightarrow> v)"
  using map_of_fold_put_prop [OF assms, of "[]" k]
  by (simp add: object_literal_def split: option.splits)

lemma read_props:
  assumes "map_exn (\<lambda>k. case get_prop data k of Inl e \<Rightarrow> Inl e | Inr v \<Rightarrow> Inr (k, v)) ks
             = Inr props"
  shows "map fst props = ks" and "\<forall>k \<in> set ks. \<exists>v. get_prop data k = Inr v \<and> (k, v) \<in> set props"
  using assms
  by (induction ks arbitrary: props; fastforce split: sum.splits)+

lemma summary_of_file_Inr:
  assumes "summary_of_file fs file = Inr e"
  shows "\<exists>data kv. read_json fs (path_join [QUESTIONS_DIR, file]) = Inr data
           \<and> e = JObj kv
           \<and> fst ` set kv \<subseteq> set summary_keys
           \<and> (\<forall>k \<in> set summary_keys. get_prop data k = Inr (map_of kv k))"
proof -
  from assms obtain data props where
    r: "read_json fs (path_join [QUESTIONS_DIR, file]) = Inr data"
    and m: "map_exn (\<lambda>k. case get_prop data k of Inl e \<Rightarrow> Inl e | Inr v \<Rightarrow> Inr (k, v))
              summary_keys = Inr props"
    and e: "e = JObj (object_literal props)"
    by (auto simp: summary_of_file_def split: sum.splits)
  note p = read_props [OF m]
  have d: "distinct (map fst props)"
    unfolding p(1) by (simp add: summary_keys_def)
  have k: "fst ` set (object_literal props) \<subseteq> set summary_keys"
    using keys_object_literal [of props] p(1) by (metis set_map)
  have "get_prop data k = Inr (map_of (object_literal props) k)" if "k \<in> set summary_keys" for k
  proof -
    from p(2) that obtain v where v: "get_prop data k = Inr v" "(k, v) \<in> set props" by blast
    from v(2) d have "map_of props k = Some v" by simp
    with v(1) show ?thesis by (simp add: map_of_object_literal [OF d])
  qed
  with r e k show ?thesis by blast
qed

text \<open>
  Claim C7. When the listing answers 200, its \<open>data\<close> array has one entry per record file
  of the scan, in order, and the entry of a file is an object whose keys all belong to the
  fixed metadata subset (\<open>_id\<close>, \<open>title\<close>, \<open>slug\<close>, \<open>difficulty\<close>, \<open>tags\<close>,
  \<open>companies\<close>, \<open>createdAt\<close>, \<open>updatedAt\<close>), each with the value the stored record has
  for it; no entry has a \<open>testCases\<close> key.
\<close>

theorem list_questions_summaries:
  assumes "list_questions fs = (200, b)"
  shows "\<exists>fnames entries.
           question_files fs = Inr fnames
         \<and> b = JsonBody (JObj [(''success'', JBool True),
                               (''count'', JNum (int (length entries))),
                               (''data'', JArr entries)])
         \<and> list_all2
             (\<lambda>file e. \<exists>data kv.
                read_json fs (path_join [QUESTIONS_DIR, file]) = Inr data
              \<and> e = JObj kv
              \<and> fst ` set kv \<subseteq> set summary_keys
              \<and> ''testCases'' \<notin> fst ` set kv
              \<and> (\<forall>k \<in> set summary_keys. get_prop data k = Inr (map_of kv k)))
             fnames entries"
proof -
  from assms obtain fnames entries where
    q: "question_files fs = Inr fnames"
    and m: "map_exn (summary_of_file fs) fnames = Inr entries"
    and b: "b = JsonBody (JObj [(''success'', JBool True),
                                (''count'', JNum (int (length entries))),
                                (''data'', JArr entries)])"
    by (auto simp: list_questions_def error_response_def split: sum.splits)
  have t: "''testCases'' \<notin> set summary_keys" by (simp add: summary_keys_def)
  have "list_all2
             (\<lambda>file e. \<exists>data kv.
                read_json fs (path_join [QUESTIONS_DIR, file]) = Inr data
              \<and> e = JObj kv
              \<and> fst ` set kv \<subseteq> set summary_keys
              \<and> ''testCases'' \<notin> fst ` set kv
              \<and> (\<forall>k \<in> set summary_keys. get_prop data k = Inr (map_of kv k)))
             fnames entries"
    using map_exn_Inr [OF m]
  proof (rule list_all2_mono)
    fix fname e
    assume "summary_of_file fs fname = Inr e"
    from summary_of_file_Inr [OF this] t
    show "\<exists>data kv. read_json fs (path_join [QUESTIONS_DIR, fname]) = Inr data
              \<and> e = JObj kv
              \<and> fst ` set kv \<subseteq> set summary_keys
              \<and> ''testCases'' \<notin> fst ` set kv
              \<and> (\<forall>k \<in> set summary_keys. get_prop data k = Inr (map_of kv k))"
      by blast
  qed
  with q b show ?thesis by blast
qed

lemma list_questions_example:
  "list_questions
     \<lparr>files = [(''data/questions/q1.json'',
                 JsonText (JObj [(''_id'', JStr ''q1''), (''title'', JStr ''Two Sum''),
                                 (''testCases'', JArr [JObj [(''input'', JStr ''1 2''),
                                                             (''output'', JStr ''3'')]]),
                                 (''createdAt'', JStr ''t1''), (''updatedAt'', JStr ''t2'')]))],
      dirs = [''.'', ''data'', ''data/questions'']\<rparr>
   = (200, JsonBody (JObj
        [(''success'', JBool True),
         (''count'', JNum 1),
         (''data'', JArr [JObj [(''_id'', JStr ''q1''), (''title'', JStr ''Two Sum''),
                                (''createdAt'', JStr ''t1''), (''updatedAt'', JStr ''t2'')]])]))"
  by code_simp

text \<open>
  A record stored with a non-empty \<open>testCases\<close> field is listed without it.
\<close>

theorem list_questions_summaries_witness:
  "\<exists>fnames entries.
     question_files
       \<lparr>files = [(''data/questions/q1.json'',
                   JsonText (JObj [(''_id'', JStr ''q1''), (''title'', JStr ''Two Sum''),
                                   (''testCases'', JArr [JObj [(''input'', JStr ''1 2''),
                                                               (''output'', JStr ''3'')]]),
                                   (''createdAt'', JStr ''t1''), (''updatedAt'', JStr ''t2'')]))],
        dirs = [''.'', ''data'', ''data/questions'']\<rparr> = Inr fnames
   \<and> entries = [JObj [(''_id'', JStr ''q1''), (''title'', JStr ''Two Sum''),
                      (''createdAt'', JStr ''t1''), (''updatedAt'', JStr ''t2'')]]
   \<and> list_all2 (\<lambda>fname e. \<exists>kv. e = JObj kv \<and> ''testCases'' \<notin> fst ` set kv) fnames entries"
  using list_questions_summaries [OF list_questions_example]
  apply (elim exE conjE)
  subgoal for fnames entries
    apply (rule exI [of _ fnames], rule exI [of _ entries])
    apply (auto elim!: list_all2_mono)
    done
  done

lemma slug_loop_malformed:
  assumes "read_json fs (path_join [QUESTIONS_DIR, f]) = Inl e"
    and "\<forall>g \<in> set pre. \<forall>data. read_json fs (path_join [QUESTIONS_DIR, g]) = Inr data \<longrightarrow>
           get_prop data ''slug'' \<noteq> Inr (Some (JStr slug))"
  shows "slug_loop fs slug (pre @ f # post) = error_response 500 ''Failed to get question''"
  using assms by (induction pre) (auto split: sum.splits)

text \<open>
  Claim C8. If one of the record files the scan visits holds text that is not JSON, the
  listing answers 500 as a whole, and so does the lookup by slug for every slug that no
  file visited before the malformed one carries.
\<close>

theorem malformed_record_fails_scan:
  assumes "question_files fs = Inr (pre @ f # post)"
    and "readFileSync fs (path_join [QUESTIONS_DIR, f]) = Inr (OtherText s)"
  shows "list_questions fs = error_response 500 ''Failed to list questions''
       \<and> (\<forall>slug.
            (\<forall>g \<in> set pre. \<forall>data.
                read_json fs (path_join [QUESTIONS_DIR, g]) = Inr data \<longrightarrow>
                get_prop data ''slug'' \<noteq> Inr (Some (JStr slug))) \<longrightarrow>
            get_question_by_slug fs slug = error_response 500 ''Failed to get question'')"
proof -
  from assms(2) have r: "read_json fs (path_join [QUESTIONS_DIR, f]) = Inl SyntaxError"
    by (simp add: read_json_def)
  then have "summary_of_file fs f = Inl SyntaxError"
    by (simp add: summary_of_file_def)
  then obtain e' where "map_exn (summary_of_file fs) (pre @ f # post) = Inl e'"
    using map_exn_fails [of f "pre @ f # post" "summary_of_file fs"] by auto
  then have l: "list_questions fs = error_response 500 ''Failed to list questions''"
    using assms(1) by (simp add: list_questions_def)
  from slug_loop_malformed [OF r] assms(1) l show ?thesis
    by (simp add: get_question_by_slug_def)
qed


lemma question_files_example:
  "question_files
     \<lparr>files = [(''data/questions/a.json'',
                 JsonText (JObj [(''_id'', JStr ''a''), (''slug'', JStr ''two-sum'')])),
                (''data/questions/bad.json'', OtherText ''{oops''),
                (''data/questions/c.json'',
                 JsonText (JObj [(''_id'', JStr ''c''), (''slug'', JStr ''three-sum'')]))],
      dirs = [''.'', ''data'', ''data/questions'']\<rparr>
   = Inr ([''a.json''] @ ''bad.json'' # [''c.json''])"
  by code_simp

lemma path_join_examples:
  "path_join [QUESTIONS_DIR, ''a.json''] = ''data/questions/a.json''"
  "path_join [QUESTIONS_DIR, ''bad.json''] = ''data/questions/bad.json''"
  by code_simp+

text \<open>
  With a malformed \<open>bad.json\<close> between two good records, the listing fails, and so does
  the lookup of the slug of the record that comes after it.
\<close>

theorem malformed_record_fails_scan_witness:
  "list_questions
     \<lparr>files = [(''data/questions/a.json'',
                 JsonText (JObj [(''_id'', JStr ''a''), (''slug'', JStr ''two-sum'')])),
                (''data/questions/bad.json'', OtherText ''{oops''),
                (''data/questions/c.json'',
                 JsonText (JObj [(''_id'', JStr ''c''), (''slug'', JStr ''three-sum'')]))],
      dirs = [''.'', ''data'', ''data/questions'']\<rparr>
     = error_response 500 ''Failed to list questions''
   \<and> get_question_by_slug
     \<lparr>files = [(''data/questions/a.json'',
                 JsonText (JObj [(''_id'', JStr ''a''), (''slug'', JStr ''two-sum'')])),
                (''data/questions/bad.json'', OtherText ''{oops''),
                (''data/questions/c.json'',
                 JsonText (JObj [(''_id'', JStr ''c''), (''slug'', JStr ''three-sum'')]))],
      dirs = [''.'', ''data'', ''data/questions'']\<rparr> ''three-sum''
     = error_response 500 ''Failed to get question''"
proof -
  let ?fs = "\<lparr>files = [(''data/questions/a.json'',
                 JsonText (JObj [(''_id'', JStr ''a''), (''slug'', JStr ''two-sum'')])),
                (''data/questions/bad.json'', OtherText ''{oops''),
                (''data/questions/c.json'',
                 JsonText (JObj [(''_id'', JStr ''c''), (''slug'', JStr ''three-sum'')]))],
      dirs = [''.'', ''data'', ''data/questions'']\<rparr>"
  have r: "readFileSync ?fs (path_join [QUESTIONS_DIR, ''bad.json'']) = Inr (OtherText ''{oops'')"
    by (simp add: path_join_examples readFileSync_def)
  have n: "\<forall>g \<in> set [''a.json'']. \<forall>data.
             read_json ?fs (path_join [QUESTIONS_DIR, g]) = Inr data \<longrightarrow>
             get_prop data ''slug'' \<noteq> Inr (Some (JStr ''three-sum''))"
    by (auto simp: path_join_examples read_json_def readFileSync_def)
  from malformed_record_fails_scan [OF question_files_example r] n
  show ?thesis by simp
qed

section \<open>Bulk import\<close>

lemma readable_exists: "readFileSync fs p = Inr x \<Longrightarrow> existsSync fs p"
  by (auto simp: readFileSync_def existsSync_def split: if_splits option.splits)

lemma bulk_loop_create:
  assumes "map_of q ''_id'' = Some qid" and "truthy qid" and "printable qid"
    and "\<not> existsSync fs (record_path (to_string qid))"
    and "valid_path (record_path (to_string qid))"
    and "parent_dir (record_path (to_string qid)) \<in> set (dirs fs)"
  shows "bulk_loop now (JObj q # qs) fs created skipped =
           bulk_loop now qs
             (fs\<lparr>files := AList.update (record_path (to_string qid))
                     (JsonText (JObj (AList.update ''updatedAt''
                                        (JStr (now (created + skipped))) q)))
                     (files fs)\<rparr>)
             (created + 1) skipped"
  using assms by (simp add: writeFileSync_new JSON_stringify_def template_def)

lemma bulk_loop_throws:
  assumes "map_of q ''_id'' = Some qid" and "truthy qid"
    and "\<not> printable qid
         \<or> (\<not> existsSync fs (record_path (to_string qid))
            \<and> (\<not> valid_path (record_path (to_string qid))
               \<or> parent_dir (record_path (to_string qid)) \<notin> set (dirs fs)))"
  obtains e where
    "\<And>qs created skipped. bulk_loop now (JObj q # qs) fs created skipped = (Inl e, fs)"
proof (cases "printable qid")
  case False
  with assms(1,2) have "bulk_loop now (JObj q # qs) fs created skipped = (Inl TypeError, fs)"
    for qs created skipped
    by (simp add: template_def)
  then show ?thesis by (rule that)
next
  case True
  with assms(3) have n: "\<not> existsSync fs (record_path (to_string qid))"
    and w: "\<not> valid_path (record_path (to_string qid))
            \<or> parent_dir (record_path (to_string qid)) \<notin> set (dirs fs)"
    by auto
  from n have nd: "record_path (to_string qid) \<notin> set (dirs fs)"
    and nf: "map_of (files fs) (record_path (to_string qid)) = None"
    by (simp_all add: existsSync_def)
  define e where "e =
     (if CHR 0x00 \<in> set (record_path (to_string qid)) then ERR_INVALID_ARG_VALUE
      else if \<not> valid_path (record_path (to_string qid)) then ENAMETOOLONG else ENOENT)"
  have "writeFileSync fs (record_path (to_string qid)) c = Inl e" for c
    using nd nf w by (auto simp: writeFileSync_def e_def)
  with assms(1,2) True n
  have "bulk_loop now (JObj q # qs) fs created skipped = (Inl e, fs)" for qs created skipped
    by (simp add: template_def)
  then show ?thesis by (rule that)
qed

lemma bulk_loop_exists:
  assumes "map_of q ''_id'' = Some qid" and "truthy qid" and "printable qid"
    and "existsSync fs (record_path (to_string qid))"
  shows "bulk_loop now (JObj q # qs) fs created skipped =
           bulk_loop now qs fs created (skipped + 1)"
  using assms by (simp add: template_def)

lemma bulk_loop_no_id:
  assumes "map_of q ''_id'' = None \<or> (\<exists>qid. map_of q ''_id'' = Some qid \<and> \<not> truthy qid)"
  shows "bulk_loop now (JObj q # qs) fs created skipped =
           bulk_loop now qs fs created (skipped + 1)"
  using assms by auto

lemma bulk_step_cases:
  obtains
    (error) e where
      "\<And>qs created skipped. bulk_loop now (q # qs) fs created skipped = (Inl e, fs)"
  | (skip)
      "\<And>qs created skipped. bulk_loop now (q # qs) fs created skipped =
          bulk_loop now qs fs created (skipped + 1)"
  | (create) kv qid where
      "q = JObj kv" and "map_of kv ''_id'' = Some qid" and "truthy qid" and "printable qid"
      and "\<not> existsSync fs (record_path (to_string qid))"
      and "valid_path (record_path (to_string qid))"
      and "parent_dir (record_path (to_string qid)) \<in> set (dirs fs)"
proof (cases q)
  case JNull
  then show ?thesis using error [of TypeError] by simp
next
  case (JObj kv)
  show ?thesis
  proof (cases "map_of kv ''_id''")
    case None
    then show ?thesis using skip JObj bulk_loop_no_id [of kv] by simp
  next
    case (Some qid)
    show ?thesis
    proof (cases "truthy qid")
      case False
      with Some show ?thesis using skip JObj bulk_loop_no_id [of kv] by simp
    next
      case True
      show ?thesis
      proof (cases "printable qid \<and> existsSync fs (record_path (to_string qid))")
        case ex: True
        then show ?thesis using skip JObj bulk_loop_exists [OF Some True] by simp
      next
        case nex: False
        show ?thesis
        proof (cases "printable qid \<and> valid_path (record_path (to_string qid))
                      \<and> parent_dir (record_path (to_string qid)) \<in> set (dirs fs)")
          case True
          with JObj Some \<open>truthy qid\<close> nex show ?thesis by (intro create) auto
        next
          case False
          with nex have "\<not> printable qid
             \<or> (\<not> existsSync fs (record_path (to_string qid))
                \<and> (\<not> valid_path (record_path (to_string qid))
                   \<or> parent_dir (record_path (to_string qid)) \<notin> set (dirs fs)))"
            by auto
          from bulk_loop_throws [OF Some \<open>truthy qid\<close> this, of now]
          obtain e where "\<And>qs created skipped.
              bulk_loop now (JObj kv # qs) fs created skipped = (Inl e, fs)"
            by blast
          then show ?thesis using error [of e] JObj by simp
        qed
      qed
    qed
  qed
qed (use skip in simp_all)


lemma bulk_loop_append:
  "bulk_loop now (pre @ rest) fs created skipped =
     (case bulk_loop now pre fs created skipped of
        (Inl e, fs1) \<Rightarrow> (Inl e, fs1)
      | (Inr (c1, s1), fs1) \<Rightarrow> bulk_loop now rest fs1 c1 s1)"
proof (induction pre arbitrary: fs created skipped)
  case Nil
  then show ?case by simp
next
  case (Cons q pre)
  show ?case
  proof (cases rule: bulk_step_cases [of now q fs])
    case (error e)
    then show ?thesis by simp
  next
    case skip
    then show ?thesis by (simp add: Cons.IH)
  next
    case (create kv qid)
    note step = bulk_loop_create [OF create(2-7)]
    show ?thesis
      unfolding create(1) append_Cons step Cons.IH ..
  qed
qed

lemma bulk_loop_preserves:
  assumes "bulk_loop now qs fs created skipped = (r, fs')"
  shows "dirs fs' = dirs fs
       \<and> (\<forall>p x. readFileSync fs p = Inr x \<longrightarrow> readFileSync fs' p = Inr x)
       \<and> (\<forall>p. existsSync fs p \<longrightarrow> existsSync fs' p)"
  using assms
proof (induction qs arbitrary: fs created skipped)
  case Nil
  then show ?case by simp
next
  case (Cons q qs)
  show ?case
  proof (cases rule: bulk_step_cases [of now q fs])
    case (error e)
    with Cons.prems show ?thesis by simp
  next
    case skip
    with Cons.prems Cons.IH [of fs created "skipped + 1"] show ?thesis by simp
  next
    case (create kv qid)
    let ?p = "record_path (to_string qid)"
    let ?fs1 = "fs\<lparr>files := AList.update ?p
                     (JsonText (JObj (AList.update ''updatedAt''
                                        (JStr (now (created + skipped))) kv)))
                     (files fs)\<rparr>"
    note step = bulk_loop_create [OF create(2-7)]
    from Cons.prems have "bulk_loop now qs ?fs1 (created + 1) skipped = (r, fs')"
      unfolding create(1) step .
    note ih = Cons.IH [OF this]
    from create(5) have nd: "?p \<notin> set (dirs fs)" by (rule not_exists_not_dir)
    have a: "readFileSync ?fs1 p = Inr x" if "readFileSync fs p = Inr x" for p x
    proof -
      from that create(5) have "p \<noteq> ?p" using readable_exists by blast
      with that after_write(3) [OF nd] show ?thesis by simp
    qed
    have b: "existsSync ?fs1 p" if "existsSync fs p" for p
    proof -
      from that create(5) have "p \<noteq> ?p" by blast
      with that after_write(4) [OF nd] show ?thesis by simp
    qed
    from ih a b show ?thesis by simp
  qed
qed

lemma bulk_loop_counts:
  assumes "bulk_loop now qs fs created skipped = (Inr (c, s), fs')"
  shows "c + s = created + skipped + length qs"
  using assms
proof (induction qs arbitrary: fs created skipped)
  case Nil
  then show ?case by simp
next
  case (Cons q qs)
  show ?case
  proof (cases rule: bulk_step_cases [of now q fs])
    case (error e)
    with Cons.prems show ?thesis by simp
  next
    case skip
    with Cons.prems Cons.IH [of fs created "skipped + 1"] show ?thesis by simp
  next
    case (create kv qid)
    note step = bulk_loop_create [OF create(2-7)]
    from Cons.prems have "bulk_loop now qs
             (fs\<lparr>files := AList.update (record_path (to_string qid))
                     (JsonText (JObj (AList.update ''updatedAt''
                                        (JStr (now (created + skipped))) kv)))
                     (files fs)\<rparr>)
             (created + 1) skipped = (Inr (c, s), fs')"
      unfolding create(1) step .
    from Cons.IH [OF this] show ?thesis by simp
  qed
qed


lemma bulk_import_questions:
  assumes "map_of body ''questions'' = Some (JArr qs)"
  shows "bulk_import fs now body =
           (case bulk_loop now qs fs 0 0 of
              (Inl e, fs') \<Rightarrow> (error_response 500 ''Bulk import failed'', fs')
            | (Inr (created, skipped), fs') \<Rightarrow>
                ((200, JsonBody (JObj
                   [(''success'', JBool True),
                    (''created'', JNum (int created)),
                    (''skipped'', JNum (int skipped))])),
                 fs'))"
  using assms by (simp add: bulk_import_def)

lemma bulk_import_ok:
  assumes "map_of body ''questions'' = Some (JArr qs)"
    and "bulk_import fs now body = ((200, b), fs')"
  shows "\<exists>c s. bulk_loop now qs fs 0 0 = (Inr (c, s), fs')
           \<and> b = JsonBody (JObj [(''success'', JBool True),
                                  (''created'', JNum (int c)),
                                  (''skipped'', JNum (int s))])"
proof -
  obtain r fs'' where l: "bulk_loop now qs fs 0 0 = (r, fs'')"
    by (cases "bulk_loop now qs fs 0 0")
  show ?thesis
  proof (cases r)
    case (Inl e)
    with l assms show ?thesis
      by (simp add: bulk_import_questions error_response_def)
  next
    case (Inr cs)
    obtain c s where "cs = (c, s)" by (cases cs)
    with Inr l assms show ?thesis
      by (simp add: bulk_import_questions)
  qed
qed

text \<open>
  Claim C10. Let the records before record \<open>q\<close> import without error, leaving the store
  \<open>fs1\<close>, and let \<open>q\<close> have an identifier with no file yet. If the write of \<open>q\<close> fails
  (the directory of its file is missing or its name is not valid) or its identifier does
  not print, the whole call answers 500 with no counts, and the store it leaves is
  \<open>fs1\<close>: everything written before \<open>q\<close> stays. If the write succeeds, the stored
  document is \<open>q\<close> with \<open>updatedAt\<close> set to the clock reading and nothing else changed;
  in particular \<open>createdAt\<close> is present only if \<open>q\<close> had it.
\<close>

theorem bulk_import_not_atomic:
  assumes "map_of body ''questions'' = Some (JArr (pre @ JObj q # post))"
    and "bulk_import fs now [(''questions'', JArr pre)] = ((200, b), fs1)"
    and "map_of q ''_id'' = Some qid" and "truthy qid"
    and "\<not> existsSync fs1 (record_path (to_string qid))"
  shows "(\<not> printable qid \<or> \<not> valid_path (record_path (to_string qid))
            \<or> parent_dir (record_path (to_string qid)) \<notin> set (dirs fs1) \<longrightarrow>
            bulk_import fs now body = (error_response 500 ''Bulk import failed'', fs1))
       \<and> (printable qid \<and> valid_path (record_path (to_string qid))
            \<and> parent_dir (record_path (to_string qid)) \<in> set (dirs fs1) \<longrightarrow>
            (\<exists>doc. read_json (snd (bulk_import fs now body)) (record_path (to_string qid))
                     = Inr (JObj doc)
                 \<and> map_of doc ''updatedAt'' = Some (JStr (now (length pre)))
                 \<and> map_of doc ''createdAt'' = map_of q ''createdAt''
                 \<and> (\<forall>k. k \<noteq> ''updatedAt'' \<longrightarrow> map_of doc k = map_of q k)))"
proof -
  let ?p = "record_path (to_string qid)"
  have "map_of [(''questions'', JArr pre)] ''questions'' = Some (JArr pre)" by simp
  from bulk_import_ok [OF this assms(2)] obtain c s where
    l: "bulk_loop now pre fs 0 0 = (Inr (c, s), fs1)" by blast
  from bulk_loop_counts [OF l] have n: "c + s = length pre" by simp
  have w: "bulk_loop now (pre @ JObj q # post) fs 0 0 = bulk_loop now (JObj q # post) fs1 c s"
    by (simp only: bulk_loop_append l prod.case sum.case)
  have 1: "bulk_import fs now body = (error_response 500 ''Bulk import failed'', fs1)"
    if "\<not> printable qid \<or> \<not> valid_path ?p \<or> parent_dir ?p \<notin> set (dirs fs1)"
  proof -
    from that assms(5) have "\<not> printable qid
         \<or> (\<not> existsSync fs1 ?p \<and> (\<not> valid_path ?p \<or> parent_dir ?p \<notin> set (dirs fs1)))"
      by (elim disjE) simp_all
    then show ?thesis
    proof (rule bulk_loop_throws [OF assms(3,4), of fs1 now])
      fix e
      assume "\<And>qs created skipped.
                bulk_loop now (JObj q # qs) fs1 created skipped = (Inl e, fs1)"
      then have "bulk_loop now (JObj q # post) fs1 c s = (Inl e, fs1)" .
      then show ?thesis
        unfolding bulk_import_questions [OF assms(1)] w by simp
    qed
  qed
  have 2: "\<exists>doc. read_json (snd (bulk_import fs now body)) ?p = Inr (JObj doc)
                 \<and> map_of doc ''updatedAt'' = Some (JStr (now (length pre)))
                 \<and> map_of doc ''createdAt'' = map_of q ''createdAt''
                 \<and> (\<forall>k. k \<noteq> ''updatedAt'' \<longrightarrow> map_of doc k = map_of q k)"
    if pd: "printable qid \<and> valid_path ?p \<and> parent_dir ?p \<in> set (dirs fs1)"
  proof -
    let ?doc = "AList.update ''updatedAt'' (JStr (now (c + s))) q"
    let ?fs2 = "fs1\<lparr>files := AList.update ?p (JsonText (JObj ?doc)) (files fs1)\<rparr>"
    obtain r fs' where f: "bulk_loop now post ?fs2 (c + 1) s = (r, fs')"
      by (cases "bulk_loop now post ?fs2 (c + 1) s")
    from assms(5) have nd: "?p \<notin> set (dirs fs1)" by (rule not_exists_not_dir)
    from pd have h: "printable qid" "valid_path ?p" "parent_dir ?p \<in> set (dirs fs1)"
      by simp_all
    have "readFileSync ?fs2 ?p = Inr (JsonText (JObj ?doc))"
      using after_write(2) [OF nd] .
    with bulk_loop_preserves [OF f] have rd: "readFileSync fs' ?p = Inr (JsonText (JObj ?doc))"
      by blast
    have "bulk_loop now (pre @ JObj q # post) fs 0 0 = (r, fs')"
      unfolding w bulk_loop_create [OF assms(3,4) h(1) assms(5) h(2,3)] f ..
    then have "snd (bulk_import fs now body) = fs'"
      unfolding bulk_import_questions [OF assms(1)]
      by (cases r) (auto split: prod.splits)
    with rd have "read_json (snd (bulk_import fs now body)) ?p = Inr (JObj ?doc)"
      by (simp add: read_json_def)
    then show ?thesis
      using n by (intro exI [of _ ?doc]) (simp add: update_conv')
  qed
  show ?thesis
  proof (intro conjI impI)
    assume "\<not> printable qid \<or> \<not> valid_path ?p \<or> parent_dir ?p \<notin> set (dirs fs1)"
    then show "bulk_import fs now body = (error_response 500 ''Bulk import failed'', fs1)"
      by (rule 1)
  next
    assume "printable qid \<and> valid_path ?p \<and> parent_dir ?p \<in> set (dirs fs1)"
    then show "\<exists>doc. read_json (snd (bulk_import fs now body)) ?p = Inr (JObj doc)
                 \<and> map_of doc ''updatedAt'' = Some (JStr (now (length pre)))
                 \<and> map_of doc ''createdAt'' = map_of q ''createdAt''
                 \<and> (\<forall>k. k \<noteq> ''updatedAt'' \<longrightarrow> map_of doc k = map_of q k)"
      by (rule 2)
  qed
qed



lemma bulk_import_prefix_example:
  "bulk_import \<lparr>files = [], dirs = [''.'', ''data'', ''data/questions'']\<rparr> (\<lambda>k. ''t'')
     [(''questions'', JArr [JObj [(''_id'', JStr ''a'')]])]
   = ((200, JsonBody (JObj [(''success'', JBool True),
                            (''created'', JNum 1), (''skipped'', JNum 0)])),
      \<lparr>files = [(''data/questions/a.json'',
                  JsonText (JObj [(''_id'', JStr ''a''), (''updatedAt'', JStr ''t'')]))],
       dirs = [''.'', ''data'', ''data/questions'']\<rparr>)"
  by code_simp

lemma record_path_examples:
  "record_path ''nodir/b'' = ''data/questions/nodir/b.json''"
  "record_path ''b'' = ''data/questions/b.json''"
  "record_path ''a'' = ''data/questions/a.json''"
  by code_simp+

lemma valid_path_examples:
  "valid_path ''data/questions/a.json''"
  "valid_path ''data/questions/b.json''"
  by code_simp+

text \<open>
  Importing \<open>a\<close>, \<open>nodir/b\<close>, \<open>c\<close> fails at the second record and leaves \<open>a\<close> stored;
  importing \<open>a\<close>, \<open>b\<close> stores \<open>b\<close> with \<open>updatedAt\<close> and without \<open>createdAt\<close>.
\<close>

theorem bulk_import_not_atomic_witness:
  "bulk_import \<lparr>files = [], dirs = [''.'', ''data'', ''data/questions'']\<rparr> (\<lambda>k. ''t'')
     [(''questions'', JArr ([JObj [(''_id'', JStr ''a'')]]
                            @ JObj [(''_id'', JStr ''nodir/b'')]
                            # [JObj [(''_id'', JStr ''c'')]]))]
   = (error_response 500 ''Bulk import failed'',
      \<lparr>files = [(''data/questions/a.json'',
                  JsonText (JObj [(''_id'', JStr ''a''), (''updatedAt'', JStr ''t'')]))],
       dirs = [''.'', ''data'', ''data/questions'']\<rparr>)
   \<and> (\<exists>doc. read_json
          (snd (bulk_import \<lparr>files = [], dirs = [''.'', ''data'', ''data/questions'']\<rparr>
                  (\<lambda>k. ''t'')
                  [(''questions'', JArr ([JObj [(''_id'', JStr ''a'')]]
                                         @ JObj [(''_id'', JStr ''b''), (''title'', JStr ''B'')]
                                         # []))]))
          ''data/questions/b.json'' = Inr (JObj doc)
        \<and> map_of doc ''updatedAt'' = Some (JStr ''t'')
        \<and> map_of doc ''createdAt'' = None
        \<and> map_of doc ''title'' = Some (JStr ''B''))"
proof -
  let ?fs1 = "\<lparr>files = [(''data/questions/a.json'',
                  JsonText (JObj [(''_id'', JStr ''a''), (''updatedAt'', JStr ''t'')]))],
       dirs = [''.'', ''data'', ''data/questions'']\<rparr>"
  have t: "truthy (JStr ''nodir/b'')" "truthy (JStr ''b'')" by simp_all
  have i1: "map_of [(''_id'', JStr ''nodir/b'')] ''_id'' = Some (JStr ''nodir/b'')" by simp
  have i2: "map_of [(''_id'', JStr ''b''), (''title'', JStr ''B'')] ''_id'' = Some (JStr ''b'')"
    by simp
  have n1: "\<not> existsSync ?fs1 (record_path (to_string (JStr ''nodir/b'')))"
    by (simp add: record_path_examples existsSync_def)
  have n2: "\<not> existsSync ?fs1 (record_path (to_string (JStr ''b'')))"
    by (simp add: record_path_examples existsSync_def)
  have b1: "map_of [(''questions'', JArr ([JObj [(''_id'', JStr ''a'')]]
                            @ JObj [(''_id'', JStr ''nodir/b'')]
                            # [JObj [(''_id'', JStr ''c'')]]))] ''questions''
            = Some (JArr ([JObj [(''_id'', JStr ''a'')]]
                            @ JObj [(''_id'', JStr ''nodir/b'')]
                            # [JObj [(''_id'', JStr ''c'')]]))"
    by simp
  have b2: "map_of [(''questions'', JArr ([JObj [(''_id'', JStr ''a'')]]
                                         @ JObj [(''_id'', JStr ''b''), (''title'', JStr ''B'')]
                                         # []))] ''questions''
            = Some (JArr ([JObj [(''_id'', JStr ''a'')]]
                                         @ JObj [(''_id'', JStr ''b''), (''title'', JStr ''B'')]
                                         # []))"
    by simp
  have p1: "\<not> printable (JStr ''nodir/b'')
            \<or> \<not> valid_path (record_path (to_string (JStr ''nodir/b'')))
            \<or> parent_dir (record_path (to_string (JStr ''nodir/b''))) \<notin> set (dirs ?fs1)"
    by (simp add: record_path_examples parent_dir_def)
  have p2: "printable (JStr ''b'') \<and> valid_path (record_path (to_string (JStr ''b'')))
            \<and> parent_dir (record_path (to_string (JStr ''b''))) \<in> set (dirs ?fs1)"
    by (simp add: record_path_examples parent_dir_def valid_path_examples)
  from bulk_import_not_atomic [OF b1 bulk_import_prefix_example i1 t(1) n1] p1
  have A: "bulk_import \<lparr>files = [], dirs = [''.'', ''data'', ''data/questions'']\<rparr> (\<lambda>k. ''t'')
     [(''questions'', JArr ([JObj [(''_id'', JStr ''a'')]]
                            @ JObj [(''_id'', JStr ''nodir/b'')]
                            # [JObj [(''_id'', JStr ''c'')]]))]
     = (error_response 500 ''Bulk import failed'', ?fs1)"
    by (rule conjunct1 [THEN mp])
  from bulk_import_not_atomic [OF b2 bulk_import_prefix_example i2 t(2) n2] p2
  have "\<exists>doc. read_json
          (snd (bulk_import \<lparr>files = [], dirs = [''.'', ''data'', ''data/questions'']\<rparr>
                  (\<lambda>k. ''t'')
                  [(''questions'', JArr ([JObj [(''_id'', JStr ''a'')]]
                                         @ JObj [(''_id'', JStr ''b''), (''title'', JStr ''B'')]
                                         # []))]))
          (record_path (to_string (JStr ''b''))) = Inr (JObj doc)
        \<and> map_of doc ''updatedAt'' = Some (JStr ((\<lambda>k. ''t'') (length [JObj [(''_id'', JStr ''a'')]])))
        \<and> map_of doc ''createdAt'' = map_of [(''_id'', JStr ''b''), (''title'', JStr ''B'')] ''createdAt''
        \<and> (\<forall>k. k \<noteq> ''updatedAt'' \<longrightarrow> map_of doc k = map_of [(''_id'', JStr ''b''), (''title'', JStr ''B'')] k)"
    by (rule conjunct2 [THEN mp])
  then have B: "\<exists>doc. read_json
          (snd (bulk_import \<lparr>files = [], dirs = [''.'', ''data'', ''data/questions'']\<rparr>
                  (\<lambda>k. ''t'')
                  [(''questions'', JArr ([JObj [(''_id'', JStr ''a'')]]
                                         @ JObj [(''_id'', JStr ''b''), (''title'', JStr ''B'')]
                                         # []))]))
          ''data/questions/b.json'' = Inr (JObj doc)
        \<and> map_of doc ''updatedAt'' = Some (JStr ''t'')
        \<and> map_of doc ''createdAt'' = None
        \<and> map_of doc ''title'' = Some (JStr ''B'')"
    apply (elim exE conjE)
    subgoal for doc
      apply (drule spec [of _ "''title''"])
      apply (rule exI [of _ doc])
      apply (simp add: record_path_examples)
      done
    done
  from A B show ?thesis by (rule conjI)
qed

lemma target_file_None:
  "target_file q = None \<Longrightarrow>
     map_of q ''_id'' = None \<or> (\<exists>qid. map_of q ''_id'' = Some qid \<and> \<not> truthy qid)"
  by (auto simp: target_file_def split: option.splits if_splits)

lemma target_file_Some:
  "target_file q = Some p \<Longrightarrow>
     \<exists>qid. map_of q ''_id'' = Some qid \<and> truthy qid \<and> p = record_path (to_string qid)"
  by (auto simp: target_file_def split: option.splits if_splits)

lemma target_file_id:
  "map_of q ''_id'' = Some qid \<Longrightarrow> truthy qid \<Longrightarrow>
     target_file q = Some (record_path (to_string qid))"
  by (simp add: target_file_def)

lemma new_files_le:
  "card {p \<in> set (List.map_filter target_file rs). \<not> existsSync fs p} \<le> length rs"
proof -
  have "card {p \<in> set (List.map_filter target_file rs). \<not> existsSync fs p}
          \<le> card (set (List.map_filter target_file rs))"
    by (rule card_mono) auto
  also have "\<dots> \<le> length (List.map_filter target_file rs)"
    by (rule card_length)
  also have "\<dots> \<le> length rs"
    by (simp add: List.map_filter_def)
  finally show ?thesis .
qed

lemma exists_after_write:
  assumes "p \<notin> set (dirs fs)"
  shows "existsSync (fs\<lparr>files := AList.update p c (files fs)\<rparr>) x \<longleftrightarrow> x = p \<or> existsSync fs x"
  using after_write(1) [OF assms, of c] after_write(4) [OF assms, of x c] by (cases "x = p") simp_all

lemma bulk_loop_closed_form:
  assumes "\<forall>q \<in> set rs. \<forall>qid. map_of q ''_id'' = Some qid \<and> truthy qid \<longrightarrow>
             printable qid
             \<and> (\<not> existsSync fs (record_path (to_string qid)) \<longrightarrow>
                  valid_path (record_path (to_string qid))
                  \<and> parent_dir (record_path (to_string qid)) \<in> set (dirs fs))"
  shows "\<exists>fs'.
           bulk_loop now (map JObj rs) fs c s =
             (Inr (c + card {p \<in> set (List.map_filter target_file rs). \<not> existsSync fs p},
                   s + (length rs
                        - card {p \<in> set (List.map_filter target_file rs). \<not> existsSync fs p})),
              fs')
         \<and> dirs fs' = dirs fs
         \<and> (\<forall>p. existsSync fs' p \<longleftrightarrow>
                  existsSync fs p \<or> p \<in> set (List.map_filter target_file rs))
         \<and> (\<forall>p x. readFileSync fs p = Inr x \<longrightarrow> readFileSync fs' p = Inr x)
         \<and> (\<forall>i p. i < length rs \<and> target_file (rs ! i) = Some p \<and> \<not> existsSync fs p
                    \<and> (\<forall>j<i. target_file (rs ! j) \<noteq> Some p) \<longrightarrow>
                  readFileSync fs' p =
                    Inr (JsonText (JObj (AList.update ''updatedAt''
                                           (JStr (now (c + s + i))) (rs ! i)))))"
  using assms
proof (induction rs arbitrary: fs c s)
  case Nil
  then show ?case by (simp add: List.map_filter_simps)
next
  case (Cons q rs)
  let ?N = "\<lambda>fs rs. card {p \<in> set (List.map_filter target_file rs). \<not> existsSync fs p}"
  let ?doc = "\<lambda>k r. JsonText (JObj (AList.update ''updatedAt'' (JStr (now k)) r))"
  have le: "?N fs rs \<le> length rs" for fs by (rule new_files_le)
  have skip_case: ?case
    if step: "bulk_loop now (JObj q # map JObj rs) fs c s = bulk_loop now (map JObj rs) fs c (s + 1)"
      and n: "?N fs (q # rs) = ?N fs rs"
      and e: "\<And>p. existsSync fs p \<or> p \<in> set (List.map_filter target_file (q # rs))
                 \<longleftrightarrow> existsSync fs p \<or> p \<in> set (List.map_filter target_file rs)"
      and z: "\<And>p. target_file q = Some p \<Longrightarrow> existsSync fs p"
  proof -
    from Cons.prems have W: "\<forall>q \<in> set rs. \<forall>qid. map_of q ''_id'' = Some qid \<and> truthy qid \<longrightarrow>
             printable qid
             \<and> (\<not> existsSync fs (record_path (to_string qid)) \<longrightarrow>
                  valid_path (record_path (to_string qid))
                  \<and> parent_dir (record_path (to_string qid)) \<in> set (dirs fs))"
      by simp
    from Cons.IH [OF W, of c "s + 1"] obtain fs' where
      l: "bulk_loop now (map JObj rs) fs c (s + 1) =
            (Inr (c + ?N fs rs, s + 1 + (length rs - ?N fs rs)), fs')"
      and d: "dirs fs' = dirs fs"
      and x: "\<forall>p. existsSync fs' p \<longleftrightarrow>
                  existsSync fs p \<or> p \<in> set (List.map_filter target_file rs)"
      and r: "\<forall>p x. readFileSync fs p = Inr x \<longrightarrow> readFileSync fs' p = Inr x"
      and t: "\<forall>i p. i < length rs \<and> target_file (rs ! i) = Some p \<and> \<not> existsSync fs p
                    \<and> (\<forall>j<i. target_file (rs ! j) \<noteq> Some p) \<longrightarrow>
                  readFileSync fs' p = Inr (?doc (c + (s + 1) + i) (rs ! i))"
      by (elim exE conjE) (rule that)
    have 1: "bulk_loop now (map JObj (q # rs)) fs c s =
               (Inr (c + ?N fs (q # rs), s + (length (q # rs) - ?N fs (q # rs))), fs')"
      unfolding list.map step l n using le [of fs] by simp
    have 3: "\<forall>p. existsSync fs' p \<longleftrightarrow>
                  existsSync fs p \<or> p \<in> set (List.map_filter target_file (q # rs))"
      using x e by simp
    have 5: "readFileSync fs' p = Inr (?doc (c + s + i) ((q # rs) ! i))"
      if h: "i < length (q # rs) \<and> target_file ((q # rs) ! i) = Some p \<and> \<not> existsSync fs p
             \<and> (\<forall>j<i. target_file ((q # rs) ! j) \<noteq> Some p)" for i p
    proof (cases i)
      case 0
      with h z [of p] show ?thesis by simp
    next
      case (Suc i')
      with h have a: "i' < length rs" "target_file (rs ! i') = Some p" "\<not> existsSync fs p"
        by simp_all
      have b: "\<forall>j<i'. target_file (rs ! j) \<noteq> Some p"
      proof (intro allI impI)
        fix j assume "j < i'"
        then have "Suc j < i" using Suc by simp
        with h have "target_file ((q # rs) ! Suc j) \<noteq> Some p" by blast
        then show "target_file (rs ! j) \<noteq> Some p" by simp
      qed
      from t a b have "readFileSync fs' p = Inr (?doc (c + (s + 1) + i') (rs ! i'))"
        by blast
      then show ?thesis using Suc by simp
    qed
    from 1 d 3 r 5 show ?thesis by (intro exI [of _ fs'] conjI allI impI) auto
  qed
  show ?case
  proof (cases "target_file q")
    case None
    from bulk_loop_no_id [OF target_file_None [OF None]]
    have step: "bulk_loop now (JObj q # map JObj rs) fs c s =
                  bulk_loop now (map JObj rs) fs c (s + 1)" .
    show ?thesis
      by (rule skip_case [OF step]) (simp_all add: None List.map_filter_simps)
  next
    case (Some p0)
    from target_file_Some [OF Some] obtain qid where
      q: "map_of q ''_id'' = Some qid" "truthy qid" and p0: "p0 = record_path (to_string qid)"
      by blast
    from Cons.prems q have pr: "printable qid" by simp
    show ?thesis
    proof (cases "existsSync fs p0")
      case True
      from bulk_loop_exists [OF q pr True [unfolded p0]]
      have step: "bulk_loop now (JObj q # map JObj rs) fs c s =
                    bulk_loop now (map JObj rs) fs c (s + 1)" .
      have n: "?N fs (q # rs) = ?N fs rs"
      proof -
        have "{p \<in> set (List.map_filter target_file (q # rs)). \<not> existsSync fs p}
                = {p \<in> set (List.map_filter target_file rs). \<not> existsSync fs p}"
          using True by (auto simp: Some List.map_filter_simps)
        then show ?thesis by simp
      qed
      show ?thesis
        by (rule skip_case [OF step n]) (use True in \<open>auto simp: Some List.map_filter_simps\<close>)
    next
      case False
      with Cons.prems q p0 have v: "valid_path (record_path (to_string qid))"
        and pd: "parent_dir (record_path (to_string qid)) \<in> set (dirs fs)"
        by simp_all
      from False p0 have ne: "\<not> existsSync fs (record_path (to_string qid))" by simp
      then have nd: "p0 \<notin> set (dirs fs)" unfolding p0 by (rule not_exists_not_dir)
      let ?fs2 = "fs\<lparr>files := AList.update p0 (?doc (c + s) q) (files fs)\<rparr>"
      have step: "bulk_loop now (JObj q # map JObj rs) fs c s =
                    bulk_loop now (map JObj rs) ?fs2 (c + 1) s"
        unfolding p0 by (rule bulk_loop_create [OF q pr ne v pd])
      have ex2: "existsSync ?fs2 x \<longleftrightarrow> x = p0 \<or> existsSync fs x" for x
        by (rule exists_after_write [OF nd])
      have W2: "\<forall>q \<in> set rs. \<forall>qid. map_of q ''_id'' = Some qid \<and> truthy qid \<longrightarrow>
             printable qid
             \<and> (\<not> existsSync ?fs2 (record_path (to_string qid)) \<longrightarrow>
                  valid_path (record_path (to_string qid))
                  \<and> parent_dir (record_path (to_string qid)) \<in> set (dirs ?fs2))"
        using Cons.prems by (simp add: ex2)
      from Cons.IH [OF W2, of "c + 1" s] obtain fs' where
        l: "bulk_loop now (map JObj rs) ?fs2 (c + 1) s =
              (Inr (c + 1 + ?N ?fs2 rs, s + (length rs - ?N ?fs2 rs)), fs')"
        and d: "dirs fs' = dirs ?fs2"
        and x: "\<forall>p. existsSync fs' p \<longleftrightarrow>
                    existsSync ?fs2 p \<or> p \<in> set (List.map_filter target_file rs)"
        and r: "\<forall>p x. readFileSync ?fs2 p = Inr x \<longrightarrow> readFileSync fs' p = Inr x"
        and t: "\<forall>i p. i < length rs \<and> target_file (rs ! i) = Some p \<and> \<not> existsSync ?fs2 p
                      \<and> (\<forall>j<i. target_file (rs ! j) \<noteq> Some p) \<longrightarrow>
                    readFileSync fs' p = Inr (?doc (c + 1 + s + i) (rs ! i))"
        by (elim exE conjE) (rule that)
      have n: "?N fs (q # rs) = Suc (?N ?fs2 rs)"
      proof -
        have "{p \<in> set (List.map_filter target_file (q # rs)). \<not> existsSync fs p}
                = insert p0 {p \<in> set (List.map_filter target_file rs). \<not> existsSync ?fs2 p}"
          using False by (auto simp: Some List.map_filter_simps ex2)
        moreover have "p0 \<notin> {p \<in> set (List.map_filter target_file rs). \<not> existsSync ?fs2 p}"
          by (simp add: ex2)
        ultimately show ?thesis by simp
      qed
      have 1: "bulk_loop now (map JObj (q # rs)) fs c s =
               (Inr (c + ?N fs (q # rs), s + (length (q # rs) - ?N fs (q # rs))), fs')"
        unfolding list.map step l n by simp
      have 2: "dirs fs' = dirs fs" using d by simp
      have 3: "\<forall>p. existsSync fs' p \<longleftrightarrow>
                  existsSync fs p \<or> p \<in> set (List.map_filter target_file (q # rs))"
        using x by (auto simp: ex2 Some List.map_filter_simps)
      have 4: "\<forall>p x. readFileSync fs p = Inr x \<longrightarrow> readFileSync fs' p = Inr x"
      proof (intro allI impI)
        fix p x assume a: "readFileSync fs p = Inr x"
        with False have "p \<noteq> p0" using readable_exists by blast
        with a after_write(3) [OF nd] have "readFileSync ?fs2 p = Inr x" by simp
        with r show "readFileSync fs' p = Inr x" by blast
      qed
      have 5: "readFileSync fs' p = Inr (?doc (c + s + i) ((q # rs) ! i))"
        if h: "i < length (q # rs) \<and> target_file ((q # rs) ! i) = Some p \<and> \<not> existsSync fs p
               \<and> (\<forall>j<i. target_file ((q # rs) ! j) \<noteq> Some p)" for i p
      proof (cases i)
        case 0
        with h Some have "p = p0" by simp
        moreover have "readFileSync ?fs2 p0 = Inr (?doc (c + s) q)"
          by (rule after_write(2) [OF nd])
        ultimately show ?thesis using r 0 by simp
      next
        case (Suc i')
        with h have a: "i' < length rs" "target_file (rs ! i') = Some p" "\<not> existsSync fs p"
          by simp_all
        from h Suc have "target_file ((q # rs) ! 0) \<noteq> Some p" by blast
        with Some have "p \<noteq> p0" by simp
        with a(3) have a3: "\<not> existsSync ?fs2 p" by (simp add: ex2)
        have b: "\<forall>j<i'. target_file (rs ! j) \<noteq> Some p"
        proof (intro allI impI)
          fix j assume "j < i'"
          then have "Suc j < i" using Suc by simp
          with h have "target_file ((q # rs) ! Suc j) \<noteq> Some p" by blast
          then show "target_file (rs ! j) \<noteq> Some p" by simp
        qed
        from t a(1,2) a3 b have "readFileSync fs' p = Inr (?doc (c + 1 + s + i') (rs ! i'))"
          by blast
        then show ?thesis using Suc by simp
      qed
      from 1 2 3 4 5 show ?thesis by (intro exI [of _ fs'] conjI allI impI) auto
    qed
  qed
qed

lemma bulk_loop_all_skipped:
  assumes "\<forall>q \<in> set rs. \<forall>qid. map_of q ''_id'' = Some qid \<and> truthy qid \<longrightarrow>
             printable qid \<and> existsSync fs (record_path (to_string qid))"
  shows "bulk_loop now (map JObj rs) fs c s = (Inr (c, s + length rs), fs)"
  using assms
proof (induction rs arbitrary: s)
  case Nil
  then show ?case by simp
next
  case (Cons q rs)
  from Cons.prems have "\<forall>q \<in> set rs. \<forall>qid. map_of q ''_id'' = Some qid \<and> truthy qid \<longrightarrow>
             printable qid \<and> existsSync fs (record_path (to_string qid))"
    by simp
  note ih = Cons.IH [OF this, of "s + 1"]
  have "bulk_loop now (JObj q # map JObj rs) fs c s = bulk_loop now (map JObj rs) fs c (s + 1)"
  proof (cases "target_file q")
    case None
    from bulk_loop_no_id [OF target_file_None [OF None]] show ?thesis .
  next
    case (Some p)
    from target_file_Some [OF Some] obtain qid where
      q: "map_of q ''_id'' = Some qid" "truthy qid" by blast
    with Cons.prems have "printable qid" "existsSync fs (record_path (to_string qid))"
      by simp_all
    from bulk_loop_exists [OF q this] show ?thesis .
  qed
  with ih show ?case by simp
qed

lemma mem_map_filter:
  "x \<in> set xs \<Longrightarrow> f x = Some y \<Longrightarrow> y \<in> set (List.map_filter f xs)"
  by (force simp: List.map_filter_def)

lemma count_new_files:
  "card {p \<in> set xs. \<not> existsSync fs p} = length (remdups (filter (\<lambda>p. \<not> existsSync fs p) xs))"
proof -
  have "{p \<in> set xs. \<not> existsSync fs p} = set (filter (\<lambda>p. \<not> existsSync fs p) xs)"
    by auto
  then show ?thesis by (simp add: length_remdups_card_conv)
qed

text \<open>
  Claim C6, amended. Take an input sequence of record objects in which every identifier
  prints and every file still to be created can be written. Then bulk import answers with
  counts: \<open>created\<close> is the number of distinct files that the identifiers name and that
  did not exist before, and every other record is skipped (it has no truthy \<open>_id\<close>, or
  its file exists, by then at the latest). Nothing is overwritten: every file readable
  before reads the same afterwards, and exactly the named files are added. Each new file
  holds the first record of the input that names it, with \<open>updatedAt\<close> set to the clock
  reading of its turn and nothing else changed. Importing the same sequence again creates
  none, skips all and leaves the store unchanged. When all records have identifiers that
  name pairwise distinct files, none of which exists, the first import creates all of
  them. The claim as written leaves out that the identifiers must be pairwise distinct: a
  sequence that repeats an identifier creates fewer than \<open>N\<close> records the first time.
\<close>

theorem bulk_import_counts:
  assumes "map_of body ''questions'' = Some (JArr (map JObj records))"
    and "\<forall>q \<in> set records. \<forall>qid. map_of q ''_id'' = Some qid \<and> truthy qid \<longrightarrow>
           printable qid
           \<and> (\<not> existsSync fs (record_path (to_string qid)) \<longrightarrow>
                valid_path (record_path (to_string qid))
                \<and> parent_dir (record_path (to_string qid)) \<in> set (dirs fs))"
    and "created = length (remdups (filter (\<lambda>p. \<not> existsSync fs p)
                                      (List.map_filter target_file records)))"
  shows "\<exists>fs1.
           bulk_import fs now body =
             ((200, JsonBody (JObj [(''success'', JBool True),
                                    (''created'', JNum (int created)),
                                    (''skipped'', JNum (int (length records - created)))])),
              fs1)
         \<and> (\<forall>p x. readFileSync fs p = Inr x \<longrightarrow> readFileSync fs1 p = Inr x)
         \<and> (\<forall>p. existsSync fs1 p \<longleftrightarrow>
                  existsSync fs p \<or> p \<in> set (List.map_filter target_file records))
         \<and> (\<forall>i p. i < length records \<and> target_file (records ! i) = Some p
                    \<and> \<not> existsSync fs p
                    \<and> (\<forall>j<i. target_file (records ! j) \<noteq> Some p) \<longrightarrow>
                  readFileSync fs1 p =
                    Inr (JSON_stringify (JObj (AList.update ''updatedAt'' (JStr (now i))
                                                 (records ! i)))))
         \<and> bulk_import fs1 now' body =
             ((200, JsonBody (JObj [(''success'', JBool True),
                                    (''created'', JNum 0),
                                    (''skipped'', JNum (int (length records)))])),
              fs1)
         \<and> ((\<forall>q \<in> set records. target_file q \<noteq> None)
              \<and> distinct (List.map_filter target_file records)
              \<and> (\<forall>p \<in> set (List.map_filter target_file records). \<not> existsSync fs p) \<longrightarrow>
              created = length records)"
proof -
  let ?paths = "List.map_filter target_file records"
  have cr: "created = card {p \<in> set ?paths. \<not> existsSync fs p}"
    unfolding assms(3) by (rule count_new_files [symmetric])
  from bulk_loop_closed_form [OF assms(2), of now 0 0] obtain fs1 where
    l: "bulk_loop now (map JObj records) fs 0 0 =
          (Inr (0 + card {p \<in> set ?paths. \<not> existsSync fs p},
                0 + (length records - card {p \<in> set ?paths. \<not> existsSync fs p})), fs1)"
    and x: "\<forall>p. existsSync fs1 p \<longleftrightarrow> existsSync fs p \<or> p \<in> set ?paths"
    and r: "\<forall>p x. readFileSync fs p = Inr x \<longrightarrow> readFileSync fs1 p = Inr x"
    and t: "\<forall>i p. i < length records \<and> target_file (records ! i) = Some p
                  \<and> \<not> existsSync fs p
                  \<and> (\<forall>j<i. target_file (records ! j) \<noteq> Some p) \<longrightarrow>
                readFileSync fs1 p =
                  Inr (JsonText (JObj (AList.update ''updatedAt'' (JStr (now (0 + 0 + i)))
                                               (records ! i))))"
    by (elim exE conjE) (rule that)
  have 1: "bulk_import fs now body =
             ((200, JsonBody (JObj [(''success'', JBool True),
                                    (''created'', JNum (int created)),
                                    (''skipped'', JNum (int (length records - created)))])),
              fs1)"
    unfolding bulk_import_questions [OF assms(1)] l cr by simp
  have 4: "\<forall>i p. i < length records \<and> target_file (records ! i) = Some p
                    \<and> \<not> existsSync fs p
                    \<and> (\<forall>j<i. target_file (records ! j) \<noteq> Some p) \<longrightarrow>
                  readFileSync fs1 p =
                    Inr (JSON_stringify (JObj (AList.update ''updatedAt'' (JStr (now i))
                                                 (records ! i))))"
    using t by (simp add: JSON_stringify_def)
  have "\<forall>q \<in> set records. \<forall>qid. map_of q ''_id'' = Some qid \<and> truthy qid \<longrightarrow>
             printable qid \<and> existsSync fs1 (record_path (to_string qid))"
  proof (intro ballI allI impI)
    fix q qid
    assume m: "q \<in> set records" and i: "map_of q ''_id'' = Some qid \<and> truthy qid"
    with assms(2) have p: "printable qid" by blast
    from i have "target_file q = Some (record_path (to_string qid))"
      by (simp add: target_file_id)
    with m have "record_path (to_string qid) \<in> set ?paths"
      by (rule mem_map_filter)
    with x p show "printable qid \<and> existsSync fs1 (record_path (to_string qid))"
      by blast
  qed
  from bulk_loop_all_skipped [OF this, of now' 0 0]
  have 5: "bulk_import fs1 now' body =
             ((200, JsonBody (JObj [(''success'', JBool True),
                                    (''created'', JNum 0),
                                    (''skipped'', JNum (int (length records)))])),
              fs1)"
    unfolding bulk_import_questions [OF assms(1)] by simp
  have 6: "created = length records"
    if h: "(\<forall>q \<in> set records. target_file q \<noteq> None)
              \<and> distinct ?paths
              \<and> (\<forall>p \<in> set ?paths. \<not> existsSync fs p)"
  proof -
    from h have "filter (\<lambda>p. \<not> existsSync fs p) ?paths = ?paths" by simp
    moreover from h have "remdups ?paths = ?paths" by simp
    moreover from h have "length ?paths = length records"
      by (simp add: List.map_filter_def)
    ultimately show ?thesis unfolding assms(3) by (simp add: distinct_remdups_id)
  qed
  from 1 r x 4 5 6 show ?thesis
    by (intro exI [of _ fs1] conjI impI)
qed


text \<open>
  Four records on an empty store: \<open>a\<close>, one without identifier, \<open>a\<close> again, and \<open>b\<close>.
  The import creates 2 and skips 2, the file of \<open>a\<close> holds the first of the two records
  named \<open>a\<close> with its \<open>updatedAt\<close>, and importing the sequence again creates 0 and
  skips 4.
\<close>

theorem bulk_import_counts_witness:
  "\<exists>fs1.
     bulk_import \<lparr>files = [], dirs = [''.'', ''data'', ''data/questions'']\<rparr> (\<lambda>k. ''t'')
       [(''questions'', JArr (map JObj
           [[(''_id'', JStr ''a'')], [(''title'', JStr ''noid'')],
            [(''_id'', JStr ''a''), (''title'', JStr ''second'')], [(''_id'', JStr ''b'')]]))]
     = ((200, JsonBody (JObj [(''success'', JBool True),
                              (''created'', JNum 2), (''skipped'', JNum 2)])), fs1)
   \<and> readFileSync fs1 ''data/questions/a.json''
       = Inr (JsonText (JObj [(''_id'', JStr ''a''), (''updatedAt'', JStr ''t'')]))
   \<and> bulk_import fs1 (\<lambda>k. ''u'')
       [(''questions'', JArr (map JObj
           [[(''_id'', JStr ''a'')], [(''title'', JStr ''noid'')],
            [(''_id'', JStr ''a''), (''title'', JStr ''second'')], [(''_id'', JStr ''b'')]]))]
     = ((200, JsonBody (JObj [(''success'', JBool True),
                              (''created'', JNum 0), (''skipped'', JNum 4)])), fs1)"
proof -
  let ?fs = "\<lparr>files = [], dirs = [''.'', ''data'', ''data/questions'']\<rparr>"
  let ?records = "[[(''_id'', JStr ''a'')], [(''title'', JStr ''noid'')],
            [(''_id'', JStr ''a''), (''title'', JStr ''second'')], [(''_id'', JStr ''b'')]]"
  let ?body = "[(''questions'', JArr (map JObj ?records))]"
  have b: "map_of ?body ''questions'' = Some (JArr (map JObj ?records))" by simp
  have w: "\<forall>q \<in> set ?records. \<forall>qid. map_of q ''_id'' = Some qid \<and> truthy qid \<longrightarrow>
           printable qid
           \<and> (\<not> existsSync ?fs (record_path (to_string qid)) \<longrightarrow>
                valid_path (record_path (to_string qid))
                \<and> parent_dir (record_path (to_string qid)) \<in> set (dirs ?fs))"
    by (auto simp: record_path_examples valid_path_examples parent_dir_def)
  have tf: "List.map_filter target_file ?records =
              [''data/questions/a.json'', ''data/questions/a.json'', ''data/questions/b.json'']"
    by (simp add: target_file_def record_path_examples)
  have c: "2 = length (remdups (filter (\<lambda>p. \<not> existsSync ?fs p)
                                  (List.map_filter target_file ?records)))"
    unfolding tf by (simp add: existsSync_def)
  have t0: "0 < length ?records \<and> target_file (?records ! 0) = Some ''data/questions/a.json''
            \<and> \<not> existsSync ?fs ''data/questions/a.json''
            \<and> (\<forall>j<0. target_file (?records ! j) \<noteq> Some ''data/questions/a.json'')"
    by (simp add: target_file_def record_path_examples existsSync_def)
  from bulk_import_counts [OF b w c, of "\<lambda>k. ''t''" "\<lambda>k. ''u''"]
  obtain fs1 where
    r1: "bulk_import ?fs (\<lambda>k. ''t'') ?body = ((200, JsonBody (JObj [(''success'', JBool True),
           (''created'', JNum (int 2)), (''skipped'', JNum (int (length ?records - 2)))])), fs1)"
    and r4: "\<forall>i p. i < length ?records \<and> target_file (?records ! i) = Some p
                  \<and> \<not> existsSync ?fs p
                  \<and> (\<forall>j<i. target_file (?records ! j) \<noteq> Some p) \<longrightarrow>
                readFileSync fs1 p = Inr (JSON_stringify (JObj (AList.update ''updatedAt''
                                             (JStr ((\<lambda>k. ''t'') i)) (?records ! i))))"
    and r5: "bulk_import fs1 (\<lambda>k. ''u'') ?body = ((200, JsonBody (JObj [(''success'', JBool True),
           (''created'', JNum 0), (''skipped'', JNum (int (length ?records)))])), fs1)"
    by (elim exE conjE)
  from r4 [rule_format, of 0 "''data/questions/a.json''", OF t0]
  have r4': "readFileSync fs1 ''data/questions/a.json''
       = Inr (JsonText (JObj [(''_id'', JStr ''a''), (''updatedAt'', JStr ''t'')]))"
    by (simp add: JSON_stringify_def)
  show ?thesis
    apply (rule exI [of _ fs1])
    using r1 r4' r5 apply simp
    done
qed

text \<open>
  Two records with the same identifier \<open>a\<close>, none existing before: the first import
  creates 1 and skips 1, not 2 and 0, and the first of the two is the one stored.
\<close>

theorem bulk_import_duplicate_counterexample:
  "\<not> existsSync \<lparr>files = [], dirs = [''.'', ''data'', ''data/questions'']\<rparr>
        (record_path ''a'')
   \<and> bulk_import \<lparr>files = [], dirs = [''.'', ''data'', ''data/questions'']\<rparr> (\<lambda>k. ''t'')
       [(''questions'', JArr [JObj [(''_id'', JStr ''a''), (''title'', JStr ''first'')],
                              JObj [(''_id'', JStr ''a''), (''title'', JStr ''second'')]])]
     = ((200, JsonBody (JObj [(''success'', JBool True),
                              (''created'', JNum 1), (''skipped'', JNum 1)])),
        \<lparr>files = [(''data/questions/a.json'',
                    JsonText (JObj [(''_id'', JStr ''a''), (''title'', JStr ''first''),
                                    (''updatedAt'', JStr ''t'')]))],
         dirs = [''.'', ''data'', ''data/questions'']\<rparr>)"
  by code_simp

section \<open>Splitting a path without separators\<close>

lemma split_on_no_sep: "c \<notin> set s \<Longrightarrow> split_on c s = [s]"
  by (induction s) auto

section \<open>Identifiers without a separator\<close>

text \<open>
  An identifier that contains no \<open>/\<close> names a file directly inside the questions
  directory. The path of a record leaves the directory only through separators in the
  identifier.
\<close>

lemma record_path_plain:
  assumes "CHR ''/'' \<notin> set qid"
  shows "record_path qid = ''data/questions/'' @ qid @ ''.json''"
    and "inside_dir QUESTIONS_DIR (record_path qid)"
proof -
  let ?seg = "qid @ ''.json''"
  from assms have ns: "CHR ''/'' \<notin> set ?seg" by simp
  have ne: "?seg \<noteq> []" "?seg \<noteq> ''.''" "?seg \<noteq> ''..''"
    using length_append [of qid "''.json''"] by (auto simp del: length_append dest!: arg_cong [of _ _ length])
  have l: "last ?seg \<noteq> CHR ''/''" by simp
  show p: "record_path qid = ''data/questions/'' @ qid @ ''.json''"
    using ne l
    by (simp add: record_path_def QUESTIONS_DIR_eq path_join_def path_normalize_def
        normalizeString_def normalize_step_def split_on_no_sep [OF ns] Let_def)
  show "inside_dir QUESTIONS_DIR (record_path qid)"
    unfolding p QUESTIONS_DIR_eq by (simp add: inside_dir_def)
qed

section \<open>The path of an uploaded file\<close>

lemma path_basename_no_sep: "CHR ''/'' \<notin> set (path_basename p)"
proof -
  have "set (takeWhile (\<lambda>c. c \<noteq> CHR ''/'') xs) \<subseteq> {c. c \<noteq> CHR ''/''}" for xs :: string
    by (auto dest: set_takeWhileD)
  then show ?thesis
    unfolding path_basename_def by auto
qed

lemma entry_name_child:
  assumes "CHR ''/'' \<notin> set n"
  shows "entry_name (d @ ''/'' @ n) = n"
proof -
  have "\<And>x. x \<in> set (rev n) \<Longrightarrow> x \<noteq> CHR ''/''"
    using assms by auto
  then have "takeWhile (\<lambda>c. c \<noteq> CHR ''/'') (rev n @ CHR ''/'' # rev d) =
               rev n @ takeWhile (\<lambda>c. c \<noteq> CHR ''/'') (CHR ''/'' # rev d)"
    by (rule takeWhile_append2)
  then show ?thesis by (simp add: entry_name_def)
qed

lemma sendFile_directory: "p \<in> set (dirs fs) \<Longrightarrow> fst (sendFile fs p) = 404"
  by (simp add: sendFile_def readFileSync_def)

lemma blob_path_cases:
  assumes "folder \<in> set ALLOWED_FOLDERS"
  shows "blob_path folder filename =
           (if path_basename filename = [] \<or> path_basename filename = ''.''
              then ''data/'' @ folder
            else if path_basename filename = ''..'' then ''data''
            else ''data/'' @ folder @ ''/'' @ path_basename filename)"
proof -
  let ?n = "path_basename filename"
  note ns = path_basename_no_sep [of filename]
  have ln: "last ?n \<noteq> CHR ''/''" if "?n \<noteq> []"
    using that ns by (metis last_in_set)
  from assms consider "folder = ''profileimages''" | "folder = ''resumes''"
    by (auto simp: ALLOWED_FOLDERS_def)
  then show ?thesis
  proof cases
    case 1
    show ?thesis
    proof (cases "?n = []")
      case True
      with 1 show ?thesis
        by (simp add: blob_path_def path_join_def DATA_DIR_def path_normalize_def
            normalizeString_def normalize_step_def)
    next
      case False
      with 1 ln show ?thesis
        by (simp add: blob_path_def path_join_def DATA_DIR_def path_normalize_def
            normalizeString_def normalize_step_def split_on_no_sep [OF ns] Let_def)
    qed
  next
    case 2
    show ?thesis
    proof (cases "?n = []")
      case True
      with 2 show ?thesis
        by (simp add: blob_path_def path_join_def DATA_DIR_def path_normalize_def
            normalizeString_def normalize_step_def)
    next
      case False
      with 2 ln show ?thesis
        by (simp add: blob_path_def path_join_def DATA_DIR_def path_normalize_def
            normalizeString_def normalize_step_def split_on_no_sep [OF ns] Let_def)
    qed
  qed
qed


text \<open>
  Claim C5, amended. Serve and delete take the last path segment \<open>n\<close> of the supplied
  name, which contains no separator. An unknown folder is answered 400. When \<open>n\<close> is an
  ordinary name (not empty, \<open>.\<close> or \<open>..\<close>), the composed path is \<open>data/folder/n\<close>,
  directly inside the bucket; if no directory has that path, the request is answered 404
  when the bucket holds no file \<open>n\<close>, and otherwise serves (unless \<open>n\<close> starts with a
  dot, which \<open>sendFile\<close> ignores) or deletes exactly that file.
  For every name whatsoever, with the directories the server creates at startup in place,
  serve answers 404 or sends the bucket's file \<open>n\<close>, and delete leaves the store as it
  is or removes the bucket's file \<open>n\<close>: no file outside the bucket is read or removed.
  The claim as written says that a name containing \<open>../\<close> always resolves to NotFound or
  BadRequest; a name such as \<open>../cv.pdf\<close> resolves to the bucket's own \<open>cv.pdf\<close>.
\<close>

theorem blob_routes_stay_in_bucket:
  assumes "n = path_basename filename" and "p = ''data/'' @ folder @ ''/'' @ n"
  shows "CHR ''/'' \<notin> set n
       \<and> (folder \<notin> set ALLOWED_FOLDERS \<longrightarrow>
            serve_file fs folder filename = error_response 400 ''Invalid folder''
          \<and> delete_file fs folder filename = (error_response 400 ''Invalid folder'', fs))
       \<and> (folder \<in> set ALLOWED_FOLDERS \<and> n \<notin> {[], ''.'', ''..''} \<longrightarrow>
            blob_path folder filename = p \<and> inside_dir (''data/'' @ folder) p)
       \<and> (folder \<in> set ALLOWED_FOLDERS \<and> n \<notin> {[], ''.'', ''..''} \<and> p \<notin> set (dirs fs) \<longrightarrow>
            serve_file fs folder filename =
              (case map_of (files fs) p of
                 None \<Rightarrow> error_response 404 ''File not found''
               | Some c \<Rightarrow> if take 1 n = ''.'' then (404, DefaultPage) else (200, FileBody c))
          \<and> delete_file fs folder filename =
              (case map_of (files fs) p of
                 None \<Rightarrow> (error_response 404 ''File not found'', fs)
               | Some c \<Rightarrow>
                   ((200, JsonBody (JObj [(''success'', JBool True),
                                          (''message'', JStr ''File deleted'')])),
                    fs\<lparr>files := AList.delete p (files fs)\<rparr>)))
       \<and> (folder \<in> set ALLOWED_FOLDERS \<and> ''data'' \<in> set (dirs fs)
            \<and> ''data/'' @ folder \<in> set (dirs fs) \<longrightarrow>
            (fst (serve_file fs folder filename) = 404
             \<or> (\<exists>c. n \<notin> {[], ''.'', ''..''} \<and> map_of (files fs) p = Some c
                    \<and> serve_file fs folder filename = (200, FileBody c)))
          \<and> (snd (delete_file fs folder filename) = fs
             \<or> (n \<notin> {[], ''.'', ''..''} \<and> map_of (files fs) p \<noteq> None
                  \<and> snd (delete_file fs folder filename)
                      = fs\<lparr>files := AList.delete p (files fs)\<rparr>)))"
proof (intro conjI impI)
  show "CHR ''/'' \<notin> set n"
    unfolding assms(1) by (rule path_basename_no_sep)
next
  assume "folder \<notin> set ALLOWED_FOLDERS"
  then show "serve_file fs folder filename = error_response 400 ''Invalid folder''"
    and "delete_file fs folder filename = (error_response 400 ''Invalid folder'', fs)"
    by (simp_all add: serve_file_def delete_file_def)
next
  assume a: "folder \<in> set ALLOWED_FOLDERS \<and> n \<notin> {[], ''.'', ''..''}"
  then show "blob_path folder filename = p"
    using blob_path_cases [of folder filename] assms by simp
  from a show "inside_dir (''data/'' @ folder) p"
    unfolding assms(2) by (simp add: inside_dir_def)
next
  assume a: "folder \<in> set ALLOWED_FOLDERS \<and> n \<notin> {[], ''.'', ''..''} \<and> p \<notin> set (dirs fs)"
  then have bp: "blob_path folder filename = p"
    using blob_path_cases [of folder filename] assms by simp
  have en: "entry_name p = n"
    unfolding assms(2) assms(1)
    using entry_name_child [OF path_basename_no_sep, of "''data/'' @ folder" filename]
    by simp
  from a bp en show "serve_file fs folder filename =
              (case map_of (files fs) p of
                 None \<Rightarrow> error_response 404 ''File not found''
               | Some c \<Rightarrow> if take 1 n = ''.'' then (404, DefaultPage) else (200, FileBody c))"
    by (simp add: serve_file_def sendFile_def existsSync_def readFileSync_def
        split: option.splits)
  from a bp show "delete_file fs folder filename =
              (case map_of (files fs) p of
                 None \<Rightarrow> (error_response 404 ''File not found'', fs)
               | Some c \<Rightarrow>
                   ((200, JsonBody (JObj [(''success'', JBool True),
                                          (''message'', JStr ''File deleted'')])),
                    fs\<lparr>files := AList.delete p (files fs)\<rparr>))"
    by (simp add: delete_file_def existsSync_def unlinkSync_def split: option.splits)
next
  assume a: "folder \<in> set ALLOWED_FOLDERS \<and> ''data'' \<in> set (dirs fs)
            \<and> ''data/'' @ folder \<in> set (dirs fs)"
  note bp = blob_path_cases [of folder filename, folded assms(1)]
  show "fst (serve_file fs folder filename) = 404
             \<or> (\<exists>c. n \<notin> {[], ''.'', ''..''} \<and> map_of (files fs) p = Some c
                    \<and> serve_file fs folder filename = (200, FileBody c))"
  proof (cases "n \<in> {[], ''.'', ''..''}")
    case True
    with a bp have "blob_path folder filename \<in> set (dirs fs)" by auto
    with a sendFile_directory [of "blob_path folder filename" fs] show ?thesis
      by (simp add: serve_file_def existsSync_def)
  next
    case False
    with a bp have "blob_path folder filename = p" using assms(2) by simp
    with a False show ?thesis
      by (auto simp: serve_file_def sendFile_def existsSync_def readFileSync_def
          error_response_def split: option.splits)
  qed
  show "snd (delete_file fs folder filename) = fs
             \<or> (n \<notin> {[], ''.'', ''..''} \<and> map_of (files fs) p \<noteq> None
                  \<and> snd (delete_file fs folder filename)
                      = fs\<lparr>files := AList.delete p (files fs)\<rparr>)"
  proof (cases "n \<in> {[], ''.'', ''..''}")
    case True
    with a bp have "blob_path folder filename \<in> set (dirs fs)" by auto
    with a show ?thesis
      by (simp add: delete_file_def existsSync_def unlinkSync_def)
  next
    case False
    with a bp have "blob_path folder filename = p" using assms(2) by simp
    with a False show ?thesis
      by (auto simp: delete_file_def existsSync_def unlinkSync_def split: option.splits)
  qed
qed


text \<open>
  A request for \<open>../../etc/passwd\<close> in \<open>resumes\<close> is looked up as \<open>data/resumes/passwd\<close>
  and answered 404, although \<open>etc/passwd\<close> exists.
\<close>

theorem blob_routes_stay_in_bucket_witness:
  "blob_path ''resumes'' ''../../etc/passwd'' = ''data/resumes/passwd''
   \<and> inside_dir ''data/resumes'' ''data/resumes/passwd''
   \<and> serve_file
        \<lparr>files = [(''data/resumes/cv.pdf'', OtherText ''%PDF-1.4''),
                   (''etc/passwd'', OtherText ''root'')],
         dirs = [''.'', ''data'', ''data/questions'', ''data/profileimages'', ''data/resumes'',
                 ''etc'']\<rparr>
        ''resumes'' ''../../etc/passwd''
      = error_response 404 ''File not found''
   \<and> delete_file
        \<lparr>files = [(''data/resumes/cv.pdf'', OtherText ''%PDF-1.4''),
                   (''etc/passwd'', OtherText ''root'')],
         dirs = [''.'', ''data'', ''data/questions'', ''data/profileimages'', ''data/resumes'',
                 ''etc'']\<rparr>
        ''resumes'' ''../../etc/passwd''
      = (error_response 404 ''File not found'',
         \<lparr>files = [(''data/resumes/cv.pdf'', OtherText ''%PDF-1.4''),
                    (''etc/passwd'', OtherText ''root'')],
          dirs = [''.'', ''data'', ''data/questions'', ''data/profileimages'', ''data/resumes'',
                  ''etc'']\<rparr>)"
proof -
  let ?fs = "\<lparr>files = [(''data/resumes/cv.pdf'', OtherText ''%PDF-1.4''),
                   (''etc/passwd'', OtherText ''root'')],
         dirs = [''.'', ''data'', ''data/questions'', ''data/profileimages'', ''data/resumes'',
                 ''etc'']\<rparr>"
  have n: "''passwd'' = path_basename ''../../etc/passwd''"
    by (simp add: path_basename_def)
  have p: "''data/resumes/passwd'' = ''data/'' @ ''resumes'' @ ''/'' @ ''passwd''"
    by simp
  have f: "''resumes'' \<in> set ALLOWED_FOLDERS"
    by (simp add: ALLOWED_FOLDERS_def)
  have o: "''passwd'' \<notin> {[], ''.'', ''..''}" by simp
  have d: "''data/resumes/passwd'' \<notin> set (dirs ?fs)" by simp
  have m: "map_of (files ?fs) ''data/resumes/passwd'' = None" by simp
  from blob_routes_stay_in_bucket [OF n p, of ?fs] f o d m
  show ?thesis by simp
qed

text \<open>
  A name that contains \<open>../\<close> and ends in the name of a stored blob is served and
  deleted with status 200.
\<close>

theorem serve_file_dotdot_counterexample:
  "serve_file
     \<lparr>files = [(''data/resumes/cv.pdf'', OtherText ''%PDF-1.4'')],
      dirs = [''.'', ''data'', ''data/questions'', ''data/profileimages'', ''data/resumes'']\<rparr>
     ''resumes'' ''../cv.pdf''
   = (200, FileBody (OtherText ''%PDF-1.4''))
   \<and> delete_file
     \<lparr>files = [(''data/resumes/cv.pdf'', OtherText ''%PDF-1.4'')],
      dirs = [''.'', ''data'', ''data/questions'', ''data/profileimages'', ''data/resumes'']\<rparr>
     ''resumes'' ''../cv.pdf''
   = ((200, JsonBody (JObj [(''success'', JBool True), (''message'', JStr ''File deleted'')])),
      \<lparr>files = [],
       dirs = [''.'', ''data'', ''data/questions'', ''data/profileimages'', ''data/resumes'']\<rparr>)"
  by code_simp

text \<open>
  A name whose last segment is \<open>..\<close> composes the data directory itself. Nothing is
  deleted, but \<open>unlinkSync\<close> throws on the directory and the route answers 500.
\<close>

lemma delete_file_parent_segment:
  "path_basename ''x/../'' = ''..''"
  "blob_path ''resumes'' ''x/../'' = ''data''"
  "delete_file
     \<lparr>files = [(''data/resumes/cv.pdf'', OtherText ''%PDF-1.4'')],
      dirs = [''.'', ''data'', ''data/questions'', ''data/profileimages'', ''data/resumes'']\<rparr>
     ''resumes'' ''x/../''
   = ((500, DefaultPage),
      \<lparr>files = [(''data/resumes/cv.pdf'', OtherText ''%PDF-1.4'')],
       dirs = [''.'', ''data'', ''data/questions'', ''data/profileimages'', ''data/resumes'']\<rparr>)"
  by code_simp+

end
